theory Spec2Isabelle
  imports Complex_Main "HOL-Library.Sublist" "HOL-Library.AList"
begin

section \<open>Website Time Manager: the time-accounting and blocking engine\<close>

text \<open>
  A shallow embedding of \<^verbatim>\<open>src/utils/index.ts\<close> and of the class
  \<^verbatim>\<open>WebsiteTimeManager\<close> in \<^verbatim>\<open>src/background/index.ts\<close>.

  \<^item> JavaScript strings are \<^typ>\<open>string\<close>; times are milliseconds since the epoch, an
    \<^typ>\<open>int\<close>; a limit in minutes is an \<^typ>\<open>int\<close>; the warning threshold is a
    \<^typ>\<open>rat\<close>, so that \<^verbatim>\<open>timeSpent / siteLimitMs\<close> is the exact quotient (the
    rounding of doubles is not modelled).
  \<^item> \<^verbatim>\<open>this.state\<close>, \<^verbatim>\<open>chrome.storage.local\<close> and everything the
    worker does to the outside (console, tab navigation, messages, timers) are fields of
    one record, passed through every method.
  \<^item> What the outside answers (the clock, the time zone, whether a browser call rejects,
    the tab that was looked up) is a record \<open>env\<close> handed to each run.
  \<^item> An \<^verbatim>\<open>async\<close> method that is called without \<^verbatim>\<open>await\<close> runs up
    to its first \<^verbatim>\<open>await\<close> inside the caller and the rest later. The only such
    method is \<^verbatim>\<open>updateTimeSpent\<close>: its synchronous part and the part after its first
    \<^verbatim>\<open>await\<close> are two functions, and the calls that wait in between are a queue
    in the state. The part after the first \<^verbatim>\<open>await\<close> is run in one piece.
\<close>

subsection \<open>String helpers of the JavaScript runtime\<close>

definition startsWith :: "string \<Rightarrow> string \<Rightarrow> bool" where
  "startsWith s p = (take (length p) s = p)"

definition endsWith :: "string \<Rightarrow> string \<Rightarrow> bool" where
  "endsWith s p = (length p \<le> length s \<and> drop (length s - length p) s = p)"

definition includesChar :: "string \<Rightarrow> char \<Rightarrow> bool" where
  "includesChar s c = (c \<in> set s)"

text \<open>\<^verbatim>\<open>s.replace(/^p/, '')\<close> for a literal prefix \<open>p\<close>.\<close>

definition stripPrefix :: "string \<Rightarrow> string \<Rightarrow> string" where
  "stripPrefix p s = (if startsWith s p then drop (length p) s else s)"

text \<open>\<^verbatim>\<open>s.replace(/^https?:\/\//, '')\<close>.\<close>

definition stripProtocol :: "string \<Rightarrow> string" where
  "stripProtocol s =
     (if startsWith s ''http://'' then drop 7 s
      else if startsWith s ''https://'' then drop 8 s
      else s)"

text \<open>\<^verbatim>\<open>s.replace(/\/$/, '')\<close>.\<close>

definition stripTrailingSlash :: "string \<Rightarrow> string" where
  "stripTrailingSlash s = (if s \<noteq> [] \<and> last s = CHR ''/'' then butlast s else s)"

definition lowerLetters :: string where
  "lowerLetters = ''abcdefghijklmnopqrstuvwxyz''"

definition upperLetters :: string where
  "upperLetters = ''ABCDEFGHIJKLMNOPQRSTUVWXYZ''"

definition decimalDigits :: string where
  "decimalDigits = ''0123456789''"

definition toLowerCase :: "string \<Rightarrow> string" where
  "toLowerCase s =
     map (\<lambda>c. case map_of (zip upperLetters lowerLetters) c of Some l \<Rightarrow> l | None \<Rightarrow> c) s"

text \<open>\<^verbatim>\<open>s.split(c)\<close> for a one-character separator.\<close>

fun splitOn :: "char \<Rightarrow> string \<Rightarrow> string list" where
  "splitOn c [] = [[]]"
| "splitOn c (x # xs) =
     (if x = c then [] # splitOn c xs
      else (case splitOn c xs of l # ls \<Rightarrow> (x # l) # ls | [] \<Rightarrow> [[x]]))"

text \<open>The decimal numeral of a natural number, as template literals print it.\<close>

fun showNat :: "nat \<Rightarrow> string" where
  "showNat n =
     (if n < 10 then [decimalDigits ! n]
      else showNat (n div 10) @ [decimalDigits ! (n mod 10)])"

declare showNat.simps [simp del]

subsection \<open>\<^verbatim>\<open>src/utils/index.ts\<close>\<close>

record SiteConfig =
  enabled :: bool
  timeLimit :: int
  isDefault :: bool

datatype error = ValidationError string

definition extractSite :: "string \<Rightarrow> string" where
  "extractSite hostname = (if hostname = [] then [] else stripPrefix ''www.'' hostname)"

text \<open>
  \<^verbatim>\<open>formatTime\<close>: \<^verbatim>\<open>!timeMs\<close> holds for 0, and \<^verbatim>\<open>Math.floor\<close> of a
  quotient of non-negative integers is \<open>div\<close>.
\<close>

definition formatTime :: "int \<Rightarrow> string" where
  "formatTime timeMs =
     (if timeMs = 0 \<or> timeMs < 0 then ''0s''
      else
        let seconds = nat timeMs div 1000;
            minutes = seconds div 60;
            hours = minutes div 60
        in if hours > 0 then
             (let remainingMinutes = minutes mod 60
              in if remainingMinutes > 0
                 then showNat hours @ ''h '' @ showNat remainingMinutes @ ''m''
                 else showNat hours @ ''h'')
           else if minutes > 0 then showNat minutes @ ''m''
           else showNat seconds @ ''s'')"

text \<open>
  The regular expression of \<^verbatim>\<open>isValidUrl\<close>,
  \<^verbatim>\<open>/^L(\.L)*$/\<close> with \<^verbatim>\<open>L = [a-zA-Z0-9]([a-zA-Z0-9-]{0,61}[a-zA-Z0-9])?\<close>.
  No \<open>L\<close> holds a dot, so a string matches exactly when each piece between dots matches
  \<open>L\<close>: 1 to 63 characters, letters, digits or hyphens, the first and the last not a
  hyphen.
\<close>

definition isAlnum :: "char \<Rightarrow> bool" where
  "isAlnum c = (c \<in> set (lowerLetters @ upperLetters @ decimalDigits))"

definition isLabel :: "string \<Rightarrow> bool" where
  "isLabel l =
     (l \<noteq> [] \<and> length l \<le> 63 \<and> isAlnum (hd l) \<and> isAlnum (last l)
      \<and> list_all (\<lambda>c. isAlnum c \<or> c = CHR ''-'') l)"

definition hostnameRegex :: "string \<Rightarrow> bool" where
  "hostnameRegex s = list_all isLabel (splitOn (CHR ''.'') s)"

definition isValidUrl :: "string \<Rightarrow> bool" where
  "isValidUrl url =
     (if url = [] then False
      else let cleanUrl = stripProtocol url in hostnameRegex cleanUrl)"

text \<open>
  \<^verbatim>\<open>findMatchingSite\<close>. A \<^verbatim>\<open>Map\<close> is an association list in insertion
  order, the order its iterator follows; \<open>firstMatch\<close> is the \<^verbatim>\<open>for ... of\<close> loop.
\<close>

fun firstMatch :: "string \<Rightarrow> string list \<Rightarrow> string option" where
  "firstMatch hostname [] = None"
| "firstMatch hostname (site # rest) =
     (if endsWith hostname (CHR ''.'' # site) \<or> hostname = site then Some site
      else firstMatch hostname rest)"

definition findMatchingSite :: "string \<Rightarrow> (string \<times> SiteConfig) list \<Rightarrow> string option" where
  "findMatchingSite hostname sitesMap =
     (if hostname = [] then None
      else if hostname \<in> set (map fst sitesMap) then Some hostname
      else firstMatch hostname (map fst sitesMap))"

definition validateDomain :: "string \<Rightarrow> error + string" where
  "validateDomain domain =
     (if domain = [] then Inl (ValidationError ''Domain must be a non-empty string'')
      else
        let cleanDomain = stripProtocol domain;
            cleanDomain = extractSite cleanDomain;
            cleanDomain = stripTrailingSlash cleanDomain
        in if cleanDomain = [] \<or> \<not> includesChar cleanDomain (CHR ''.'')
           then Inl (ValidationError ''Invalid domain format'')
           else if \<not> isValidUrl cleanDomain
           then Inl (ValidationError ''Domain contains invalid characters'')
           else Inr (toLowerCase cleanDomain))"

text \<open>
  A JavaScript number: not-a-number, the two infinities, or a finite value (every finite
  double is a rational).
\<close>

datatype number = NaN | PosInfinity | NegInfinity | Finite rat

definition validateTimeLimit :: "number \<Rightarrow> error + int" where
  "validateTimeLimit minutes =
     (case minutes of
        NaN \<Rightarrow> Inl (ValidationError ''Time limit must be a valid number'')
      | PosInfinity \<Rightarrow> Inl (ValidationError ''Time limit must be between 1 and 480 minutes'')
      | NegInfinity \<Rightarrow> Inl (ValidationError ''Time limit must be between 1 and 480 minutes'')
      | Finite x \<Rightarrow>
          if x < 1 \<or> x > 480
          then Inl (ValidationError ''Time limit must be between 1 and 480 minutes'')
          else Inr \<lfloor>x\<rfloor>)"

subsection \<open>The clock and the calendar\<close>

text \<open>
  What the browser and the operating system answer during one run: the reading of
  \<^verbatim>\<open>Date.now()\<close>, the offset of local time from UTC in milliseconds (taken as
  fixed: no daylight-saving change), whether a call of \<^verbatim>\<open>chrome.storage.local\<close>
  or \<^verbatim>\<open>chrome.tabs\<close> rejects, the URL of the tab that \<^verbatim>\<open>chrome.tabs.get\<close>
  delivers (\<open>None\<close>: no tab, no URL or the timeout) and the host name that
  \<^verbatim>\<open>new URL(url)\<close> parses from it (\<open>None\<close>: the constructor throws).
\<close>

record env =
  clock :: int
  tzOffset :: int
  storageGetFails :: bool
  storageSetFails :: bool
  storageRemoveFails :: bool
  tabsUpdateFails :: bool
  tabsSendMessageFails :: bool
  tabUrl :: "string option"
  urlHostname :: "string option"

definition msPerDay :: int where
  "msPerDay = 86400000"

text \<open>
  Year, month and day of the proleptic Gregorian calendar for a number of days since
  1970-01-01, as \<^verbatim>\<open>Date\<close> computes them.
\<close>

definition civilFromDays :: "int \<Rightarrow> int \<times> int \<times> int" where
  "civilFromDays days =
     (let z = days + 719468;
          era = z div 146097;
          doe = z - era * 146097;
          yoe = (doe - doe div 1460 + doe div 36524 - doe div 146096) div 365;
          doy = doe - (365 * yoe + yoe div 4 - yoe div 100);
          mp = (5 * doy + 2) div 153;
          d = doy - (153 * mp + 2) div 5 + 1;
          m = (if mp < 10 then mp + 3 else mp - 9);
          y = yoe + era * 400 + (if m \<le> 2 then 1 else 0)
      in (y, m, d))"

definition padStart :: "nat \<Rightarrow> string \<Rightarrow> string" where
  "padStart width s = replicate (width - length s) (CHR ''0'') @ s"

text \<open>
  The date part of \<^verbatim>\<open>toISOString()\<close> for the time value \<open>t\<close>: the UTC calendar
  day, with a four-digit year from 0 to 9999 and a signed six-digit year outside.
\<close>

definition isoDate :: "int \<Rightarrow> string" where
  "isoDate t =
     (case civilFromDays (t div msPerDay) of
        (y, m, d) \<Rightarrow>
          (if 0 \<le> y \<and> y \<le> 9999 then padStart 4 (showNat (nat y))
           else (if y < 0 then ''-'' else ''+'') @ padStart 6 (showNat (nat \<bar>y\<bar>)))
          @ ''-'' @ padStart 2 (showNat (nat m)) @ ''-'' @ padStart 2 (showNat (nat d)))"

text \<open>\<^verbatim>\<open>getTodayString\<close>: \<^verbatim>\<open>new Date().toISOString().split('T')[0]\<close>.\<close>

definition getTodayString :: "env \<Rightarrow> string" where
  "getTodayString e = isoDate (clock e)"

text \<open>
  \<^verbatim>\<open>getNextMidnight\<close>: \<^verbatim>\<open>setDate(getDate() + 1)\<close> and
  \<^verbatim>\<open>setHours(0, 0, 0, 0)\<close> work on the local calendar: the start of the next local day.
\<close>

definition getNextMidnight :: "env \<Rightarrow> int" where
  "getNextMidnight e =
     ((clock e + tzOffset e) div msPerDay + 1) * msPerDay - tzOffset e"

text \<open>
  The local calendar day of the clock reading, in the same form: what the words
  ``local calendar day'' of the data model denote.
\<close>

definition localDateString :: "env \<Rightarrow> string" where
  "localDateString e = isoDate (clock e + tzOffset e)"

subsection \<open>The state of the service worker\<close>

record TabInfo =
  site :: string
  tabId :: nat

record TimeData =
  timeSpent :: int
  date :: string
  lastUpdate :: int

text \<open>What \<^verbatim>\<open>chrome.storage.local\<close> holds under a key.\<close>

datatype stored =
  TimeEntry TimeData
  | SitesValue "(string \<times> SiteConfig) list"
  | NumberValue int

text \<open>What the worker does to the outside, in the order it does it.\<close>

datatype effect =
  ConsoleLog string
  | ConsoleWarn string
  | ConsoleError string
  | TabsUpdate nat string
  | TabsSendMessage nat string int
  | SetInterval nat
  | ClearInterval nat

text \<open>
  A call of \<^verbatim>\<open>updateTimeSpent\<close> that waits at its first \<^verbatim>\<open>await\<close>, with
  the locals it has computed: \<^verbatim>\<open>site\<close>, \<^verbatim>\<open>now\<close>, \<^verbatim>\<open>sessionTime\<close> and,
  inside \<^verbatim>\<open>getTimeData\<close>, \<^verbatim>\<open>today\<close> and \<^verbatim>\<open>storageKey\<close>.
\<close>

record suspendedUpdate =
  u_site :: string
  u_now :: int
  u_sessionTime :: int
  u_today :: string
  u_storageKey :: string

text \<open>
  The fields of \<^verbatim>\<open>BackgroundState\<close>, then the storage area, the effects so far, the
  suspended calls of \<^verbatim>\<open>updateTimeSpent\<close> (oldest first) and the last timer id that
  \<^verbatim>\<open>setInterval\<close> has handed out.
\<close>

record world =
  sites :: "(string \<times> SiteConfig) list"
  defaultTimeLimit :: int
  warningThreshold :: rat
  activeTab :: "TabInfo option"
  sessionStartTime :: "int option"
  trackingInterval :: "nat option"
  maxUpdateInterval :: int
  lastUpdateTime :: int
  storage :: "(string \<times> stored) list"
  trace :: "effect list"
  suspended :: "suspendedUpdate list"
  timerSeq :: nat

definition DEFAULT_TIME_LIMIT :: int where
  "DEFAULT_TIME_LIMIT = 30"

definition WARNING_THRESHOLD :: rat where
  "WARNING_THRESHOLD = 8 / 10"

definition MAX_UPDATE_INTERVAL :: int where
  "MAX_UPDATE_INTERVAL = 5000"

definition DEFAULT_SITES :: "string list" where
  "DEFAULT_SITES =
     [''youtube.com'', ''facebook.com'', ''instagram.com'', ''twitter.com'', ''tiktok.com'',
      ''reddit.com'']"

text \<open>The constructor, followed by \<^verbatim>\<open>initializeDefaultSites\<close> on an empty storage.\<close>

definition newManager :: world where
  "newManager =
     \<lparr>sites = map (\<lambda>domain. (domain,
          \<lparr>enabled = True, timeLimit = DEFAULT_TIME_LIMIT, isDefault = True\<rparr>)) DEFAULT_SITES,
      defaultTimeLimit = DEFAULT_TIME_LIMIT,
      warningThreshold = WARNING_THRESHOLD,
      activeTab = None,
      sessionStartTime = None,
      trackingInterval = None,
      maxUpdateInterval = MAX_UPDATE_INTERVAL,
      lastUpdateTime = 0,
      storage = [],
      trace = [],
      suspended = [],
      timerSeq = 0\<rparr>"

definition emit :: "effect \<Rightarrow> world \<Rightarrow> world" where
  "emit x w = w\<lparr>trace := trace w @ [x]\<rparr>"

subsection \<open>\<^verbatim>\<open>src/background/index.ts\<close>: the ledger\<close>

definition timeDataKey :: "string \<Rightarrow> string \<Rightarrow> string" where
  "timeDataKey siteName day = ''timeData_'' @ siteName @ ''_'' @ day"

text \<open>
  \<^verbatim>\<open>getTimeData\<close> from its \<^verbatim>\<open>await chrome.storage.local.get\<close> on. A rejected
  read is caught inside and answered by a zero entry. Only \<^verbatim>\<open>TimeData\<close> is ever
  written under these keys; any other value is read as absent.
\<close>

definition getTimeData_await :: "env \<Rightarrow> string \<Rightarrow> string \<Rightarrow> world \<Rightarrow> TimeData \<times> world" where
  "getTimeData_await e storageKey today w =
     (if storageGetFails e
      then (\<lparr>timeSpent = 0, date = getTodayString e, lastUpdate = clock e\<rparr>,
            emit (ConsoleError ''Error getting time data:'') w)
      else (case map_of (storage w) storageKey of
              Some (TimeEntry timeData) \<Rightarrow> (timeData, w)
            | _ \<Rightarrow> (\<lparr>timeSpent = 0, date = today, lastUpdate = clock e\<rparr>, w)))"

definition getTimeData :: "env \<Rightarrow> string \<Rightarrow> world \<Rightarrow> TimeData \<times> world" where
  "getTimeData e siteName w =
     (let today = getTodayString e;
          storageKey = timeDataKey siteName today
      in getTimeData_await e storageKey today w)"

definition setTimeData :: "env \<Rightarrow> string \<Rightarrow> TimeData \<Rightarrow> world \<Rightarrow> world" where
  "setTimeData e siteName data w =
     (let storageKey = timeDataKey siteName (date data)
      in if storageSetFails e then emit (ConsoleError ''Error setting time data:'') w
         else w\<lparr>storage := AList.update storageKey (TimeEntry data) (storage w)\<rparr>)"

text \<open>
  The time a ledger key holds, 0 when the key is absent: what \<^verbatim>\<open>getTimeData\<close>
  reads when the storage answers.
\<close>

definition storedTime :: "world \<Rightarrow> string \<Rightarrow> int" where
  "storedTime w key =
     (case map_of (storage w) key of Some (TimeEntry timeData) \<Rightarrow> timeSpent timeData | _ \<Rightarrow> 0)"

text \<open>
  \<^verbatim>\<open>resetDailyData\<close>, run by the \<^verbatim>\<open>dailyReset\<close> alarm and by the
  \<^verbatim>\<open>resetTodayData\<close> message.
\<close>

definition resetDailyData :: "env \<Rightarrow> world \<Rightarrow> world" where
  "resetDailyData e w =
     (if storageGetFails e then emit (ConsoleError ''Error resetting daily data:'') w
      else
        let keysToRemove = filter (\<lambda>key. startsWith key ''timeData_'') (map fst (storage w))
        in if length keysToRemove > 0 then
             (if storageRemoveFails e then emit (ConsoleError ''Error resetting daily data:'') w
              else emit (ConsoleLog ''Daily data reset completed'')
                     (w\<lparr>storage := filter (\<lambda>(key, v). key \<notin> set keysToRemove) (storage w)\<rparr>))
           else w)"

subsection \<open>\<^verbatim>\<open>src/background/index.ts\<close>: the session\<close>

text \<open>
  \<^verbatim>\<open>getSiteTimeLimit\<close>: \<^verbatim>\<open>siteConfig?.timeLimit || this.state.defaultTimeLimit\<close>
  takes the default for a missing site and for the limit 0.
\<close>

definition getSiteTimeLimit :: "world \<Rightarrow> string \<Rightarrow> int" where
  "getSiteTimeLimit w siteName =
     (let limitMinutes =
            (case map_of (sites w) siteName of
               Some siteConfig \<Rightarrow>
                 if timeLimit siteConfig \<noteq> 0 then timeLimit siteConfig else defaultTimeLimit w
             | None \<Rightarrow> defaultTimeLimit w)
      in limitMinutes * 60 * 1000)"

text \<open>
  \<^verbatim>\<open>this.state.activeTab && this.state.sessionStartTime\<close>: a start time of 0 is as
  false as \<^verbatim>\<open>null\<close>.
\<close>

definition sessionActive :: "world \<Rightarrow> bool" where
  "sessionActive w =
     (activeTab w \<noteq> None \<and> (case sessionStartTime w of None \<Rightarrow> False | Some t \<Rightarrow> t \<noteq> 0))"

text \<open>The second half of \<^verbatim>\<open>stopTracking\<close>: the fields are cleared, the timer cancelled.\<close>

definition clearSession :: "world \<Rightarrow> world" where
  "clearSession w =
     (let w1 = w\<lparr>activeTab := None, sessionStartTime := None\<rparr>
      in case trackingInterval w1 of
           Some timer \<Rightarrow>
             if timer \<noteq> 0 then emit (ClearInterval timer) (w1\<lparr>trackingInterval := None\<rparr>)
             else w1
         | None \<Rightarrow> w1)"

text \<open>
  \<^verbatim>\<open>updateTimeSpent\<close> on an active session, up to its first \<^verbatim>\<open>await\<close> (the
  read that \<^verbatim>\<open>getTimeData\<close> issues): the call is left suspended. The last case
  is never reached from \<open>updateTimeSpent\<close>.
\<close>

definition beginUpdate :: "env \<Rightarrow> world \<Rightarrow> world" where
  "beginUpdate e w =
     (case (activeTab w, sessionStartTime w) of
        (Some active, Some start) \<Rightarrow>
          let now = clock e;
              sessionTime = now - start;
              siteName = site active;
              w1 = (if sessionTime > maxUpdateInterval w then
                      (let limitedSessionTime = min sessionTime (maxUpdateInterval w)
                       in (emit (ConsoleWarn ''Large time gap detected, limiting session time'') w)
                            \<lparr>sessionStartTime := Some (now - limitedSessionTime)\<rparr>)
                    else w);
              today = getTodayString e
          in w1\<lparr>suspended := suspended w1 @
                 [\<lparr>u_site = siteName, u_now = now, u_sessionTime = sessionTime,
                   u_today = today, u_storageKey = timeDataKey siteName today\<rparr>]\<rparr>
      | _ \<Rightarrow> w)"

text \<open>
  \<^verbatim>\<open>updateTimeSpent\<close> (its synchronous part) and \<^verbatim>\<open>stopTracking\<close> call each
  other: the first calls the second only without an active session, the second calls the
  first only with one.
\<close>

function updateTimeSpent :: "env \<Rightarrow> world \<Rightarrow> world"
  and stopTracking :: "env \<Rightarrow> world \<Rightarrow> world" where
  "updateTimeSpent e w = (if \<not> sessionActive w then stopTracking e w else beginUpdate e w)"
| "stopTracking e w = clearSession (if sessionActive w then updateTimeSpent e w else w)"
  by pat_completeness auto
termination
  by (relation "measure (\<lambda>x. case x of
         Inl (e, w) \<Rightarrow> (if sessionActive w then 0 else 2)
       | Inr (e, w) \<Rightarrow> 1)") auto

declare updateTimeSpent.simps [simp del]

declare stopTracking.simps [simp del]

definition isSystemUrl :: "string \<Rightarrow> bool" where
  "isSystemUrl url =
     (startsWith url ''chrome://'' \<or> startsWith url ''chrome-extension://''
      \<or> startsWith url ''edge://'' \<or> startsWith url ''about:'')"

definition startTracking :: "env \<Rightarrow> string \<Rightarrow> nat \<Rightarrow> world \<Rightarrow> world" where
  "startTracking e siteName tab w =
     (let w1 = stopTracking e w;
          timer = Suc (timerSeq w1)
      in emit (SetInterval timer)
           (w1\<lparr>activeTab := Some \<lparr>site = siteName, tabId = tab\<rparr>,
               sessionStartTime := Some (clock e),
               lastUpdateTime := clock e,
               trackingInterval := Some timer,
               timerSeq := timer\<rparr>))"

text \<open>
  \<^verbatim>\<open>blockSite\<close>: the tab is sent to the blocked page, which carries the site as its
  query parameter; a rejected \<^verbatim>\<open>chrome.tabs.update\<close> is caught before
  \<^verbatim>\<open>stopTracking\<close> is reached.
\<close>

definition blockSite :: "env \<Rightarrow> nat \<Rightarrow> string \<Rightarrow> world \<Rightarrow> world" where
  "blockSite e tab siteName w =
     (if tabsUpdateFails e then emit (ConsoleError ''Error blocking site:'') w
      else stopTracking e (emit (TabsUpdate tab siteName) w))"

definition showWarning :: "env \<Rightarrow> string \<Rightarrow> int \<Rightarrow> world \<Rightarrow> world" where
  "showWarning e siteName remainingTime w =
     (let formattedTime = formatTime remainingTime;
          message = ''Warning: You have '' @ formattedTime @ '' left on '' @ siteName @ '' today.''
      in case activeTab w of
           Some active \<Rightarrow>
             if tabsSendMessageFails e then emit (ConsoleError ''Error showing warning:'') w
             else emit (TabsSendMessage (tabId active) message remainingTime) w
         | None \<Rightarrow> w)"

text \<open>
  \<^verbatim>\<open>timeSpent / siteLimitMs >= c\<close>. A division by 0 gives an infinity or
  not-a-number in JavaScript: only the positive infinity is at least \<open>c\<close>.
\<close>

definition percentageAtLeast :: "int \<Rightarrow> int \<Rightarrow> rat \<Rightarrow> bool" where
  "percentageAtLeast spent siteLimitMs c =
     (if siteLimitMs = 0 then spent > 0
      else of_int spent / of_int siteLimitMs \<ge> c)"

definition checkTimeThresholds :: "env \<Rightarrow> string \<Rightarrow> int \<Rightarrow> world \<Rightarrow> world" where
  "checkTimeThresholds e siteName spent w =
     (let siteLimitMs = getSiteTimeLimit w siteName
      in if percentageAtLeast spent siteLimitMs 1 then
           (case activeTab w of
              Some active \<Rightarrow> blockSite e (tabId active) siteName w
            | None \<Rightarrow> w)
         else if percentageAtLeast spent siteLimitMs (warningThreshold w) then
           (let remainingTime = siteLimitMs - spent
            in showWarning e siteName remainingTime w)
         else w)"

text \<open>
  \<^verbatim>\<open>updateTimeSpent\<close> after its first \<^verbatim>\<open>await\<close>, in two steps:
  \<open>creditSession\<close> reads the entry, adds the bounded session time, writes the entry
  and resets \<^verbatim>\<open>sessionStartTime\<close>; \<open>resumeUpdate\<close> then checks the thresholds. The
  callees catch what they throw, so the \<^verbatim>\<open>catch\<close> of \<^verbatim>\<open>updateTimeSpent\<close>
  itself is never entered.
\<close>

definition creditSession :: "env \<Rightarrow> suspendedUpdate \<Rightarrow> world \<Rightarrow> int \<times> world" where
  "creditSession e u w =
     (case getTimeData_await e (u_storageKey u) (u_today u) w of
        (timeData, w1) \<Rightarrow>
          let actualSessionTime = min (u_sessionTime u) (maxUpdateInterval w1);
              newTimeSpent = timeSpent timeData + actualSessionTime;
              w2 = setTimeData e (u_site u)
                     \<lparr>timeSpent = newTimeSpent, date = getTodayString e, lastUpdate = u_now u\<rparr> w1
          in (newTimeSpent, w2\<lparr>sessionStartTime := Some (u_now u)\<rparr>))"

definition resumeUpdate :: "env \<Rightarrow> suspendedUpdate \<Rightarrow> world \<Rightarrow> world" where
  "resumeUpdate e u w =
     (case creditSession e u w of
        (newTimeSpent, w1) \<Rightarrow> checkTimeThresholds e (u_site u) newTimeSpent w1)"

text \<open>The oldest suspended call of \<^verbatim>\<open>updateTimeSpent\<close> runs to its end.\<close>

definition updateTimeSpent_await :: "env \<Rightarrow> world \<Rightarrow> world" where
  "updateTimeSpent_await e w =
     (case suspended w of
        [] \<Rightarrow> w
      | u # rest \<Rightarrow> resumeUpdate e u (w\<lparr>suspended := rest\<rparr>))"

text \<open>
  \<^verbatim>\<open>handleTabChange\<close>: up to its first \<^verbatim>\<open>await\<close> it stops the tracking; the
  rest runs when \<^verbatim>\<open>chrome.tabs.get\<close> has answered. \<^verbatim>\<open>!tab?.url\<close> and
  \<^verbatim>\<open>!matchedSite\<close> hold for the empty string too.
\<close>

definition handleTabChange :: "env \<Rightarrow> nat \<Rightarrow> world \<Rightarrow> world" where
  "handleTabChange e tab w = stopTracking e w"

definition handleTabChange_await :: "env \<Rightarrow> nat \<Rightarrow> world \<Rightarrow> world" where
  "handleTabChange_await e tab w =
     (case tabUrl e of
        None \<Rightarrow> w
      | Some url \<Rightarrow>
          if url = [] \<or> isSystemUrl url then w
          else
            (case urlHostname e of
               None \<Rightarrow> emit (ConsoleError ''Error handling tab change:'') w
             | Some hostname \<Rightarrow>
                 let siteName = extractSite hostname
                 in (case findMatchingSite siteName (sites w) of
                       None \<Rightarrow> w
                     | Some matchedSite \<Rightarrow>
                         if matchedSite = [] then w
                         else
                           (case map_of (sites w) matchedSite of
                              None \<Rightarrow> w
                            | Some siteConfig \<Rightarrow>
                                if \<not> enabled siteConfig then w
                                else
                                  (case getTimeData e matchedSite w of
                                     (timeData, w1) \<Rightarrow>
                                       let siteLimitMs = getSiteTimeLimit w1 matchedSite
                                       in if timeSpent timeData \<ge> siteLimitMs
                                          then blockSite e tab matchedSite w1
                                          else startTracking e matchedSite tab w1)))))"

subsection \<open>Environments and states for the examples\<close>

text \<open>
  An environment in UTC in which every browser call succeeds, at the clock reading \<open>t\<close>;
  no tab is looked up.
\<close>

definition quietEnv :: "int \<Rightarrow> env" where
  "quietEnv t =
     \<lparr>clock = t, tzOffset = 0, storageGetFails = False, storageSetFails = False,
      storageRemoveFails = False, tabsUpdateFails = False, tabsSendMessageFails = False,
      tabUrl = None, urlHostname = None\<rparr>"


text \<open>An environment in which, besides, every read of the storage area is rejected.\<close>

definition rejectingReads :: "env \<Rightarrow> env" where
  "rejectingReads e = e\<lparr>storageGetFails := True\<rparr>"

text \<open>
  The same environment in which \<^verbatim>\<open>chrome.tabs.get\<close> delivers a tab with the given
  URL and host name.
\<close>

definition focusEnv :: "int \<Rightarrow> string \<Rightarrow> string \<Rightarrow> env" where
  "focusEnv t url hostname = (quietEnv t)\<lparr>tabUrl := Some url, urlHostname := Some hostname\<rparr>"

text \<open>
  A fresh worker that has tracked \<open>youtube.com\<close> in tab 7 since 2024-03-15 12:00:00 UTC.
\<close>

definition watchingExample :: world where
  "watchingExample = startTracking (quietEnv 1710504000000) ''youtube.com'' 7 newManager"

text \<open>
  A worker that has tracked \<open>youtube.com\<close> in tab 7 since 23:59:58.5 UTC on 2024-03-15,
  with ten minutes in the ledger for that day.
\<close>

definition lateEveningExample :: world where
  "lateEveningExample =
     (startTracking (quietEnv 1710547198500) ''youtube.com'' 7 newManager)
       \<lparr>storage :=
          [(''timeData_youtube.com_2024-03-15'',
            TimeEntry \<lparr>timeSpent = 600000, date = ''2024-03-15'', lastUpdate = 1710547198000\<rparr>)]\<rparr>"

text \<open>A fresh worker whose ledger holds the full 30 minutes for \<open>youtube.com\<close> today.\<close>

definition exhaustedExample :: world where
  "exhaustedExample =
     newManager\<lparr>storage :=
       [(''timeData_youtube.com_2024-03-15'',
         TimeEntry \<lparr>timeSpent = 1800000, date = ''2024-03-15'', lastUpdate = 1710500000000\<rparr>)]\<rparr>"

text \<open>
  A registry with the one site \<open>example.com\<close>, limited to one minute and tracked in
  tab 7.
\<close>

definition oneMinuteExample :: world where
  "oneMinuteExample =
     startTracking (quietEnv 1710504000000) ''example.com'' 7
       (newManager\<lparr>sites :=
          [(''example.com'', \<lparr>enabled = True, timeLimit = 1, isDefault = False\<rparr>)]\<rparr>)"


text \<open>The environment \<open>quietEnv t\<close> in a time zone \<open>offset\<close> milliseconds ahead of UTC.\<close>

definition localEnv :: "int \<Rightarrow> int \<Rightarrow> env" where
  "localEnv t offset = (quietEnv t)\<lparr>tzOffset := offset\<rparr>"

section \<open>Basic facts\<close>

lemma emit_fields [simp]:
  "sites (emit x w) = sites w"
  "defaultTimeLimit (emit x w) = defaultTimeLimit w"
  "warningThreshold (emit x w) = warningThreshold w"
  "activeTab (emit x w) = activeTab w"
  "sessionStartTime (emit x w) = sessionStartTime w"
  "trackingInterval (emit x w) = trackingInterval w"
  "maxUpdateInterval (emit x w) = maxUpdateInterval w"
  "lastUpdateTime (emit x w) = lastUpdateTime w"
  "storage (emit x w) = storage w"
  "trace (emit x w) = trace w @ [x]"
  "suspended (emit x w) = suspended w"
  "timerSeq (emit x w) = timerSeq w"
  by (simp_all add: emit_def)

lemma sessionActive_emit [simp]: "sessionActive (emit x w) = sessionActive w"
  by (simp add: sessionActive_def)

lemma clearSession_fields [simp]:
  "sites (clearSession w) = sites w"
  "defaultTimeLimit (clearSession w) = defaultTimeLimit w"
  "warningThreshold (clearSession w) = warningThreshold w"
  "activeTab (clearSession w) = None"
  "sessionStartTime (clearSession w) = None"
  "maxUpdateInterval (clearSession w) = maxUpdateInterval w"
  "lastUpdateTime (clearSession w) = lastUpdateTime w"
  "storage (clearSession w) = storage w"
  "suspended (clearSession w) = suspended w"
  "timerSeq (clearSession w) = timerSeq w"
  by (simp_all add: clearSession_def Let_def split: option.split)

lemma clearSession_timer:
  "trackingInterval (clearSession w) = (if trackingInterval w = Some 0 then Some 0 else None)"
  by (simp add: clearSession_def Let_def split: option.split)

lemma clearSession_trace:
  "trace (clearSession w) =
     trace w @ (case trackingInterval w of
                  Some timer \<Rightarrow> if timer \<noteq> 0 then [ClearInterval timer] else []
                | None \<Rightarrow> [])"
  by (simp add: clearSession_def Let_def split: option.split)

lemma clearSession_idle:
  "activeTab w = None \<Longrightarrow> sessionStartTime w = None \<Longrightarrow> trackingInterval w = None
   \<Longrightarrow> clearSession w = w"
  by (simp add: clearSession_def)

lemma clearSession_cleared:
  "activeTab w = None \<Longrightarrow> sessionStartTime w = None \<Longrightarrow> trackingInterval w = Some 0
   \<Longrightarrow> clearSession w = w"
  by (simp add: clearSession_def)

lemma beginUpdate_fields [simp]:
  "sites (beginUpdate e w) = sites w"
  "defaultTimeLimit (beginUpdate e w) = defaultTimeLimit w"
  "warningThreshold (beginUpdate e w) = warningThreshold w"
  "activeTab (beginUpdate e w) = activeTab w"
  "trackingInterval (beginUpdate e w) = trackingInterval w"
  "maxUpdateInterval (beginUpdate e w) = maxUpdateInterval w"
  "lastUpdateTime (beginUpdate e w) = lastUpdateTime w"
  "storage (beginUpdate e w) = storage w"
  "timerSeq (beginUpdate e w) = timerSeq w"
  by (simp_all add: beginUpdate_def Let_def split: option.split)

lemma updateTimeSpent_idle: "\<not> sessionActive w \<Longrightarrow> updateTimeSpent e w = clearSession w"
  by (simp add: updateTimeSpent.simps stopTracking.simps)

lemma updateTimeSpent_active: "sessionActive w \<Longrightarrow> updateTimeSpent e w = beginUpdate e w"
  by (simp add: updateTimeSpent.simps)

lemma stopTracking_unfold:
  "stopTracking e w = clearSession (if sessionActive w then beginUpdate e w else w)"
  by (simp add: stopTracking.simps updateTimeSpent_active)

lemma stopTracking_fields [simp]:
  "sites (stopTracking e w) = sites w"
  "defaultTimeLimit (stopTracking e w) = defaultTimeLimit w"
  "warningThreshold (stopTracking e w) = warningThreshold w"
  "activeTab (stopTracking e w) = None"
  "sessionStartTime (stopTracking e w) = None"
  "maxUpdateInterval (stopTracking e w) = maxUpdateInterval w"
  "lastUpdateTime (stopTracking e w) = lastUpdateTime w"
  "storage (stopTracking e w) = storage w"
  "timerSeq (stopTracking e w) = timerSeq w"
  by (simp_all add: stopTracking_unfold)

lemma stopTracking_timer:
  "trackingInterval (stopTracking e w) = (if trackingInterval w = Some 0 then Some 0 else None)"
  by (simp add: stopTracking_unfold clearSession_timer)

lemma stopTracking_inactive:
  "\<not> sessionActive w \<Longrightarrow> stopTracking e w = clearSession w"
  by (simp add: stopTracking_unfold)

lemma not_active_stopTracking [simp]: "\<not> sessionActive (stopTracking e w)"
  by (simp add: sessionActive_def)

lemma stopTracking_twice: "stopTracking e2 (stopTracking e1 w) = stopTracking e1 w"
proof -
  let ?w1 = "stopTracking e1 w"
  have "stopTracking e2 ?w1 = clearSession ?w1"
    by (rule stopTracking_inactive) simp
  also have "clearSession ?w1 = ?w1"
  proof (cases "trackingInterval w = Some 0")
    case True
    then show ?thesis by (intro clearSession_cleared) (simp_all add: stopTracking_timer)
  next
    case False
    then show ?thesis by (intro clearSession_idle) (simp_all add: stopTracking_timer)
  qed
  finally show ?thesis .
qed

lemma endsWith_suffix: "endsWith s p = suffix p s"
  by (auto simp: endsWith_def suffix_def) (metis append_take_drop_id)

lemma firstMatch_None:
  "firstMatch h ks = None \<longleftrightarrow> (\<forall>d \<in> set ks. \<not> (h = d \<or> suffix (CHR ''.'' # d) h))"
  by (induction ks) (auto simp: endsWith_suffix)

lemma firstMatch_Some:
  "firstMatch h ks = Some d \<Longrightarrow> d \<in> set ks \<and> (h = d \<or> suffix (CHR ''.'' # d) h)"
  by (induction ks) (auto simp: endsWith_suffix split: if_splits)

lemma map_of_filter_keys:
  "map_of (filter (\<lambda>(key, v). key \<notin> S) al) k = (if k \<in> S then None else map_of al k)"
  by (induction al) auto

lemma map_of_None_if_no_key: "k \<notin> set (map fst al) \<Longrightarrow> map_of al k = None"
  by (simp add: map_of_eq_None_iff)

lemma timeDataKey_prefix: "startsWith (timeDataKey s d) ''timeData_''"
  by (simp add: startsWith_def timeDataKey_def)

lemma getTimeData_await_world:
  "snd (getTimeData_await e k t w) =
     (if storageGetFails e then emit (ConsoleError ''Error getting time data:'') w else w)"
  by (simp add: getTimeData_await_def split: option.split stored.split)

lemma setTimeData_fields [simp]:
  "sites (setTimeData e s d w) = sites w"
  "defaultTimeLimit (setTimeData e s d w) = defaultTimeLimit w"
  "warningThreshold (setTimeData e s d w) = warningThreshold w"
  "activeTab (setTimeData e s d w) = activeTab w"
  "sessionStartTime (setTimeData e s d w) = sessionStartTime w"
  "trackingInterval (setTimeData e s d w) = trackingInterval w"
  "maxUpdateInterval (setTimeData e s d w) = maxUpdateInterval w"
  "lastUpdateTime (setTimeData e s d w) = lastUpdateTime w"
  "suspended (setTimeData e s d w) = suspended w"
  "timerSeq (setTimeData e s d w) = timerSeq w"
  by (simp_all add: setTimeData_def Let_def)

lemma creditSession_fields [simp]:
  "sites (snd (creditSession e u w)) = sites w"
  "defaultTimeLimit (snd (creditSession e u w)) = defaultTimeLimit w"
  "warningThreshold (snd (creditSession e u w)) = warningThreshold w"
  "activeTab (snd (creditSession e u w)) = activeTab w"
  "sessionStartTime (snd (creditSession e u w)) = Some (u_now u)"
  "trackingInterval (snd (creditSession e u w)) = trackingInterval w"
  "maxUpdateInterval (snd (creditSession e u w)) = maxUpdateInterval w"
  "lastUpdateTime (snd (creditSession e u w)) = lastUpdateTime w"
  "suspended (snd (creditSession e u w)) = suspended w"
  "timerSeq (snd (creditSession e u w)) = timerSeq w"
  using getTimeData_await_world [of e "u_storageKey u" "u_today u" w]
  by (auto simp: creditSession_def Let_def split: prod.split)

lemma checkTimeThresholds_no_tab:
  "activeTab w = None \<Longrightarrow> checkTimeThresholds e s n w = w"
  by (simp add: checkTimeThresholds_def showWarning_def Let_def)

lemma resumeUpdate_no_tab:
  assumes "activeTab w = None"
  shows "resumeUpdate e u w = snd (creditSession e u w)"
proof -
  obtain n w1 where c: "creditSession e u w = (n, w1)"
    by (cases "creditSession e u w")
  then have "activeTab w1 = None"
    using assms creditSession_fields(4) [of e u w] by simp
  then show ?thesis
    using c by (simp add: resumeUpdate_def checkTimeThresholds_no_tab)
qed

lemma updateTimeSpent_await_no_tab:
  "activeTab w = None \<Longrightarrow> activeTab (updateTimeSpent_await e w) = None"
  by (simp add: updateTimeSpent_await_def resumeUpdate_no_tab split: list.split)

lemma sessionActive_no_tab: "activeTab w = None \<Longrightarrow> \<not> sessionActive w"
  by (simp add: sessionActive_def)

lemma stopTracking_suspended:
  "\<not> sessionActive w \<Longrightarrow> suspended (stopTracking e w) = suspended w"
  by (simp add: stopTracking_inactive)

lemma percentageAtLeast_pos:
  "0 < L \<Longrightarrow> percentageAtLeast spent L c = (c * of_int L \<le> of_int spent)"
  by (simp add: percentageAtLeast_def pos_le_divide_eq)

lemma beginUpdate_trace:
  "trace (beginUpdate e w) = trace w
   \<or> trace (beginUpdate e w) = trace w @ [ConsoleWarn ''Large time gap detected, limiting session time'']"
  by (simp add: beginUpdate_def Let_def split: option.split)

lemma stopTracking_trace:
  "\<exists>xs. trace (stopTracking e w) = trace w @ xs
      \<and> list_all (\<lambda>x. (\<exists>m. x = ConsoleWarn m) \<or> (\<exists>t. x = ClearInterval t)) xs"
proof (cases "sessionActive w")
  case True
  then have st: "stopTracking e w = clearSession (beginUpdate e w)"
    by (simp add: stopTracking_unfold)
  from beginUpdate_trace [of e w] show ?thesis
    unfolding st clearSession_trace
    by (auto split: option.split)
next
  case False
  then have st: "stopTracking e w = clearSession w"
    by (simp add: stopTracking_unfold)
  show ?thesis
    unfolding st clearSession_trace
    by (auto split: option.split)
qed

lemma blockSite_trace:
  assumes "\<not> tabsUpdateFails e"
  shows "\<exists>xs. trace (blockSite e tab s w) = trace w @ TabsUpdate tab s # xs
      \<and> list_all (\<lambda>x. (\<exists>m. x = ConsoleWarn m) \<or> (\<exists>t. x = ClearInterval t)) xs"
proof -
  obtain xs where "trace (stopTracking e (emit (TabsUpdate tab s) w)) =
      trace (emit (TabsUpdate tab s) w) @ xs"
    and "list_all (\<lambda>x. (\<exists>m. x = ConsoleWarn m) \<or> (\<exists>t. x = ClearInterval t)) xs"
    using stopTracking_trace by blast
  with assms show ?thesis
    by (simp add: blockSite_def)
qed

lemma beginUpdate_suspended:
  assumes "activeTab w = Some active" and "sessionStartTime w = Some start"
  shows "suspended (beginUpdate e w) = suspended w @
      [\<lparr>u_site = site active, u_now = clock e, u_sessionTime = clock e - start,
        u_today = getTodayString e,
        u_storageKey = timeDataKey (site active) (getTodayString e)\<rparr>]"
  using assms by (simp add: beginUpdate_def Let_def)

lemma beginUpdate_trace_append: "\<exists>xs. trace (beginUpdate e w) = trace w @ xs"
  using beginUpdate_trace [of e w] by auto

lemma stopTracking_suspended_active:
  assumes "activeTab w = Some active" and "sessionStartTime w = Some start"
  shows "list_all (\<lambda>u. u_sessionTime u = clock e - start \<and> u_now u = clock e)
           (drop (length (suspended w)) (suspended (stopTracking e w)))"
  using assms by (simp add: stopTracking_unfold beginUpdate_suspended)

lemma checkTimeThresholds_storage [simp]:
  "storage (checkTimeThresholds e s n w) = storage w"
  by (simp add: checkTimeThresholds_def blockSite_def showWarning_def Let_def split: option.split)

lemma checkTimeThresholds_start:
  "sessionStartTime (checkTimeThresholds e s n w) =
     (if percentageAtLeast n (getSiteTimeLimit w s) 1 \<and> activeTab w \<noteq> None \<and> \<not> tabsUpdateFails e
      then None else sessionStartTime w)"
  by (auto simp: checkTimeThresholds_def blockSite_def showWarning_def Let_def split: option.split)



lemma checkTimeThresholds_suspended:
  assumes "activeTab w = Some active" and "sessionStartTime w = Some start"
  shows "list_all (\<lambda>u. u_sessionTime u = clock e - start \<and> u_now u = clock e)
           (drop (length (suspended w)) (suspended (checkTimeThresholds e s n w)))"
proof -
  have "list_all (\<lambda>u. u_sessionTime u = clock e - start \<and> u_now u = clock e)
           (drop (length (suspended (emit x w))) (suspended (stopTracking e (emit x w))))" for x
    by (rule stopTracking_suspended_active) (simp_all add: assms)
  then show ?thesis
    by (simp add: checkTimeThresholds_def blockSite_def showWarning_def Let_def assms
        split: option.split)
qed

lemma getSiteTimeLimit_cong:
  "sites w' = sites w \<Longrightarrow> defaultTimeLimit w' = defaultTimeLimit w
   \<Longrightarrow> getSiteTimeLimit w' s = getSiteTimeLimit w s"
  by (simp add: getSiteTimeLimit_def split: option.split)



lemma getTimeData_await_ok:
  "\<not> storageGetFails e \<Longrightarrow> timeSpent (fst (getTimeData_await e k t w)) = storedTime w k"
  by (simp add: getTimeData_await_def storedTime_def split: option.split stored.split)

lemma creditSession_amount:
  "fst (creditSession e u w) =
     (if storageGetFails e then 0 else storedTime w (u_storageKey u))
       + min (u_sessionTime u) (maxUpdateInterval w)"
  using getTimeData_await_world [of e "u_storageKey u" "u_today u" w]
    getTimeData_await_ok [of e "u_storageKey u" "u_today u" w]
  by (auto simp: creditSession_def Let_def getTimeData_await_def split: prod.split)

lemma creditSession_storage:
  "storage (snd (creditSession e u w)) =
     (if storageSetFails e then storage w
      else AList.update (timeDataKey (u_site u) (getTodayString e))
             (TimeEntry \<lparr>timeSpent = fst (creditSession e u w), date = getTodayString e,
                         lastUpdate = u_now u\<rparr>) (storage w))"
  using getTimeData_await_world [of e "u_storageKey u" "u_today u" w]
  by (auto simp: creditSession_def Let_def setTimeData_def split: prod.split)

lemma creditSession_trace:
  "trace (snd (creditSession e u w)) =
     trace w @ (if storageGetFails e then [ConsoleError ''Error getting time data:''] else [])
             @ (if storageSetFails e then [ConsoleError ''Error setting time data:''] else [])"
  using getTimeData_await_world [of e "u_storageKey u" "u_today u" w]
  by (auto simp: creditSession_def Let_def setTimeData_def split: prod.split)

lemma storedTime_cong: "storage w' = storage w \<Longrightarrow> storedTime w' k = storedTime w k"
  by (simp add: storedTime_def)

lemma storedTime_update:
  "storage w' = AList.update k (TimeEntry d) (storage w) \<Longrightarrow> storedTime w' k = timeSpent d"
  by (simp add: storedTime_def update_conv')

lemma updateTimeSpent_await_single:
  "suspended w = [u] \<Longrightarrow> updateTimeSpent_await e w = resumeUpdate e u (w\<lparr>suspended := []\<rparr>)"
  by (simp add: updateTimeSpent_await_def)



lemma handleTabChange_no_tab: "activeTab (handleTabChange e tab w) = None"
  by (simp add: handleTabChange_def)

lemma getTimeData_ok:
  "\<not> storageGetFails e \<Longrightarrow>
     snd (getTimeData e s w) = w
     \<and> timeSpent (fst (getTimeData e s w)) = storedTime w (timeDataKey s (getTodayString e))"
  using getTimeData_await_world [of e "timeDataKey s (getTodayString e)" "getTodayString e" w]
    getTimeData_await_ok [of e "timeDataKey s (getTodayString e)" "getTodayString e" w]
  by (simp add: getTimeData_def Let_def)

lemma handleTabChange_await_exhausted:
  assumes "tabUrl e = Some url" and "url \<noteq> []" and "\<not> isSystemUrl url"
    and "urlHostname e = Some hostname"
    and "findMatchingSite (extractSite hostname) (sites v) = Some matchedSite"
    and "matchedSite \<noteq> []"
    and "map_of (sites v) matchedSite = Some siteConfig" and "enabled siteConfig"
    and "\<not> storageGetFails e"
    and "storedTime v (timeDataKey matchedSite (getTodayString e)) \<ge> getSiteTimeLimit v matchedSite"
  shows "handleTabChange_await e tab v = blockSite e tab matchedSite v"
proof -
  obtain timeData v1 where g: "getTimeData e matchedSite v = (timeData, v1)"
    by (cases "getTimeData e matchedSite v")
  with getTimeData_ok [OF assms(9), of matchedSite v]
  have "v1 = v" and "timeSpent timeData = storedTime v (timeDataKey matchedSite (getTodayString e))"
    by simp_all
  with assms g show ?thesis
    by (simp add: handleTabChange_await_def Let_def)
qed

lemma blockSite_idle:
  assumes "activeTab v = None" and "trackingInterval v = None"
  shows "blockSite e tab s v =
     (if tabsUpdateFails e then emit (ConsoleError ''Error blocking site:'') v
      else (emit (TabsUpdate tab s) v)\<lparr>activeTab := None, sessionStartTime := None\<rparr>)"
  using assms
  by (simp add: blockSite_def stopTracking_inactive sessionActive_no_tab clearSession_def)

subsection \<open>One tick, from the timer to the end of the update\<close>

lemma tick_result:
  assumes "activeTab w = Some active" and "sessionStartTime w = Some start" and "start \<noteq> 0"
    and "suspended w = []"
  shows "\<exists>v1. updateTimeSpent_await e2 (updateTimeSpent e1 w) =
           checkTimeThresholds e2 (site active)
             ((if storageGetFails e2 then 0
               else storedTime w (timeDataKey (site active) (getTodayString e1)))
              + min (clock e1 - start) (maxUpdateInterval w)) v1
         \<and> activeTab v1 = Some active
         \<and> sessionStartTime v1 = Some (clock e1)
         \<and> trackingInterval v1 = trackingInterval w
         \<and> suspended v1 = []
         \<and> getSiteTimeLimit v1 (site active) = getSiteTimeLimit w (site active)
         \<and> storage v1 =
             (if storageSetFails e2 then storage w
              else AList.update (timeDataKey (site active) (getTodayString e2))
                     (TimeEntry
                        \<lparr>timeSpent =
                           (if storageGetFails e2 then 0
                            else storedTime w (timeDataKey (site active) (getTodayString e1)))
                           + min (clock e1 - start) (maxUpdateInterval w),
                         date = getTodayString e2, lastUpdate = clock e1\<rparr>)
                     (storage w))
         \<and> trace v1 = trace (updateTimeSpent e1 w)
             @ (if storageGetFails e2 then [ConsoleError ''Error getting time data:''] else [])
             @ (if storageSetFails e2 then [ConsoleError ''Error setting time data:''] else [])"
proof -
  define key where "key = timeDataKey (site active) (getTodayString e1)"
  define u where "u = \<lparr>u_site = site active, u_now = clock e1, u_sessionTime = clock e1 - start,
        u_today = getTodayString e1, u_storageKey = key\<rparr>"
  define w0 where "w0 = updateTimeSpent e1 w"
  define v where "v = w0\<lparr>suspended := []\<rparr>"
  define n where "n = fst (creditSession e2 u v)"
  define v1 where "v1 = snd (creditSession e2 u v)"
  have active: "sessionActive w"
    using assms(1-3) by (simp add: sessionActive_def)
  have w0_eq: "w0 = beginUpdate e1 w"
    unfolding w0_def by (rule updateTimeSpent_active [OF active])
  have susp: "suspended w0 = [u]"
    using beginUpdate_suspended [OF assms(1,2), of e1] assms(4)
    by (simp add: w0_eq u_def key_def)
  have tick: "updateTimeSpent_await e2 w0 = checkTimeThresholds e2 (site active) n v1"
    unfolding updateTimeSpent_await_single [OF susp]
    by (simp add: resumeUpdate_def v_def n_def v1_def u_def split: prod.split)
  have v_storage: "storage v = storage w" and v_max: "maxUpdateInterval v = maxUpdateInterval w"
    and v_tab: "activeTab v = Some active" and v_sites: "sites v = sites w"
    and v_default: "defaultTimeLimit v = defaultTimeLimit w"
    and v_timer: "trackingInterval v = trackingInterval w" and v_trace: "trace v = trace w0"
    and v_susp: "suspended v = []"
    by (simp_all add: v_def w0_eq assms)
  have n_eq: "n = (if storageGetFails e2 then 0 else storedTime w key)
      + min (clock e1 - start) (maxUpdateInterval w)"
    unfolding n_def creditSession_amount
    using v_max storedTime_cong [OF v_storage] by (simp add: u_def)
  have v1_storage: "storage v1 =
     (if storageSetFails e2 then storage w
      else AList.update (timeDataKey (site active) (getTodayString e2))
             (TimeEntry \<lparr>timeSpent = n, date = getTodayString e2, lastUpdate = clock e1\<rparr>)
             (storage w))"
    unfolding v1_def creditSession_storage
    using v_storage by (simp add: u_def n_def)
  have v1_trace: "trace v1 = trace w0
       @ (if storageGetFails e2 then [ConsoleError ''Error getting time data:''] else [])
       @ (if storageSetFails e2 then [ConsoleError ''Error setting time data:''] else [])"
    unfolding v1_def creditSession_trace v_trace ..
  have limit: "getSiteTimeLimit v1 (site active) = getSiteTimeLimit w (site active)"
    by (rule getSiteTimeLimit_cong) (simp_all add: v1_def v_sites v_default)
  have v1_fields: "activeTab v1 = Some active" "sessionStartTime v1 = Some (clock e1)"
    "trackingInterval v1 = trackingInterval w" "suspended v1 = []"
    by (simp_all add: v1_def v_tab v_timer v_susp u_def)
  show ?thesis
    using tick v1_fields limit v1_storage v1_trace
    unfolding n_eq key_def w0_def by blast
qed


lemma tick_storage:
  assumes "activeTab w = Some active" and "sessionStartTime w = Some start" and "start \<noteq> 0"
    and "suspended w = []"
  shows "storage (updateTimeSpent_await e2 (updateTimeSpent e1 w)) =
     (if storageSetFails e2 then storage w
      else AList.update (timeDataKey (site active) (getTodayString e2))
             (TimeEntry
                \<lparr>timeSpent =
                   (if storageGetFails e2 then 0
                    else storedTime w (timeDataKey (site active) (getTodayString e1)))
                   + min (clock e1 - start) (maxUpdateInterval w),
                 date = getTodayString e2, lastUpdate = clock e1\<rparr>)
             (storage w))"
proof -
  from tick_result [OF assms, of e2 e1] obtain v1 where
    "updateTimeSpent_await e2 (updateTimeSpent e1 w) =
       checkTimeThresholds e2 (site active)
         ((if storageGetFails e2 then 0
           else storedTime w (timeDataKey (site active) (getTodayString e1)))
          + min (clock e1 - start) (maxUpdateInterval w)) v1"
    and "storage v1 =
     (if storageSetFails e2 then storage w
      else AList.update (timeDataKey (site active) (getTodayString e2))
             (TimeEntry
                \<lparr>timeSpent =
                   (if storageGetFails e2 then 0
                    else storedTime w (timeDataKey (site active) (getTodayString e1)))
                   + min (clock e1 - start) (maxUpdateInterval w),
                 date = getTodayString e2, lastUpdate = clock e1\<rparr>)
             (storage w))"
    by blast
  then show ?thesis by simp
qed

subsection \<open>The examples, evaluated\<close>

lemma quietEnv_fields [simp]:
  "clock (quietEnv t) = t"
  "tzOffset (quietEnv t) = 0"
  "\<not> storageGetFails (quietEnv t)"
  "\<not> storageSetFails (quietEnv t)"
  "\<not> storageRemoveFails (quietEnv t)"
  "\<not> tabsUpdateFails (quietEnv t)"
  "\<not> tabsSendMessageFails (quietEnv t)"
  "getTodayString (quietEnv t) = isoDate t"
  by (simp_all add: quietEnv_def getTodayString_def)

lemma localEnv_fields [simp]:
  "clock (localEnv t offset) = t"
  "tzOffset (localEnv t offset) = offset"
  "\<not> storageGetFails (localEnv t offset)"
  "\<not> storageRemoveFails (localEnv t offset)"
  "getTodayString (localEnv t offset) = isoDate t"
  "localDateString (localEnv t offset) = isoDate (t + offset)"
  by (simp_all add: localEnv_def quietEnv_def getTodayString_def localDateString_def)

lemma focusEnv_fields [simp]:
  "clock (focusEnv t url hostname) = t"
  "\<not> storageGetFails (focusEnv t url hostname)"
  "\<not> tabsUpdateFails (focusEnv t url hostname)"
  "tabUrl (focusEnv t url hostname) = Some url"
  "urlHostname (focusEnv t url hostname) = Some hostname"
  "getTodayString (focusEnv t url hostname) = isoDate t"
  by (simp_all add: focusEnv_def quietEnv_def getTodayString_def)

lemma rejectingReads_fields [simp]:
  "clock (rejectingReads e) = clock e"
  "storageGetFails (rejectingReads e)"
  "storageSetFails (rejectingReads e) = storageSetFails e"
  "tabsUpdateFails (rejectingReads e) = tabsUpdateFails e"
  "tabUrl (rejectingReads e) = tabUrl e"
  "urlHostname (rejectingReads e) = urlHostname e"
  "getTodayString (rejectingReads e) = getTodayString e"
  by (simp_all add: rejectingReads_def getTodayString_def)

lemma isoDate_examples:
  "isoDate 1711368000000 = ''2024-03-25''"
  "isoDate 1710504001000 = ''2024-03-15''"
  "isoDate 1710478800000 = ''2024-03-15''"
  "isoDate 1704150000000 = ''2024-01-01''"
  "isoDate 1704153600000 = ''2024-01-02''"
  by code_simp+

lemma isoDate_more_examples:
  "isoDate 1710504001400 = ''2024-03-15''"
  "isoDate 1710547199999 = ''2024-03-15''"
  "isoDate 1710547200001 = ''2024-03-16''"
  by code_simp+

lemma formatTime_example: "formatTime 11000 = ''11s''"
  by code_simp

lemma watchingExample_eq:
  "watchingExample =
     newManager\<lparr>activeTab := Some \<lparr>site = ''youtube.com'', tabId = 7\<rparr>,
       sessionStartTime := Some 1710504000000, lastUpdateTime := 1710504000000,
       trackingInterval := Some 1, timerSeq := 1, trace := [SetInterval 1]\<rparr>"
  by (simp add: watchingExample_def startTracking_def stopTracking_inactive sessionActive_def
      clearSession_def emit_def newManager_def quietEnv_def)

lemma watchingExample_fields:
  "activeTab watchingExample = Some \<lparr>site = ''youtube.com'', tabId = 7\<rparr>"
  "sessionStartTime watchingExample = Some 1710504000000"
  "trackingInterval watchingExample = Some 1"
  "suspended watchingExample = []"
  "storage watchingExample = []"
  "maxUpdateInterval watchingExample = 5000"
  "getSiteTimeLimit watchingExample ''youtube.com'' = 1800000"
  by (simp_all add: watchingExample_eq newManager_def getSiteTimeLimit_def DEFAULT_SITES_def
      DEFAULT_TIME_LIMIT_def MAX_UPDATE_INTERVAL_def)

lemma oneMinuteExample_eq:
  "oneMinuteExample =
     newManager\<lparr>sites := [(''example.com'', \<lparr>enabled = True, timeLimit = 1, isDefault = False\<rparr>)],
       activeTab := Some \<lparr>site = ''example.com'', tabId = 7\<rparr>,
       sessionStartTime := Some 1710504000000, lastUpdateTime := 1710504000000,
       trackingInterval := Some 1, timerSeq := 1, trace := [SetInterval 1]\<rparr>"
  by (simp add: oneMinuteExample_def startTracking_def stopTracking_inactive sessionActive_def
      clearSession_def emit_def newManager_def quietEnv_def)

lemma oneMinuteExample_fields:
  "activeTab oneMinuteExample = Some \<lparr>site = ''example.com'', tabId = 7\<rparr>"
  "getSiteTimeLimit oneMinuteExample ''example.com'' = 60000"
  "warningThreshold oneMinuteExample = WARNING_THRESHOLD"
  "trace oneMinuteExample = [SetInterval 1]"
  by (simp_all add: oneMinuteExample_eq newManager_def getSiteTimeLimit_def)

lemma exhaustedExample_fields:
  "sites exhaustedExample = sites newManager"
  "activeTab exhaustedExample = None"
  "sessionStartTime exhaustedExample = None"
  "trackingInterval exhaustedExample = None"
  "suspended exhaustedExample = []"
  "trace exhaustedExample = []"
  "getSiteTimeLimit exhaustedExample ''youtube.com'' = 1800000"
  "storedTime exhaustedExample ''timeData_youtube.com_2024-03-15'' = 1800000"
  "map_of (sites exhaustedExample) ''youtube.com'' =
     Some \<lparr>enabled = True, timeLimit = 30, isDefault = True\<rparr>"
  by (simp_all add: exhaustedExample_def newManager_def getSiteTimeLimit_def storedTime_def
      DEFAULT_SITES_def DEFAULT_TIME_LIMIT_def)

lemma watchingExample_flushed:
  "storage (updateTimeSpent_await (quietEnv 1710504001000)
      (stopTracking (quietEnv 1710504001000) watchingExample)) =
     [(''timeData_youtube.com_2024-03-15'',
       TimeEntry \<lparr>timeSpent = 1000, date = ''2024-03-15'', lastUpdate = 1710504001000\<rparr>)]"
proof -
  have active: "sessionActive watchingExample"
    by (simp add: sessionActive_def watchingExample_fields)
  have pending: "suspended (stopTracking (quietEnv 1710504001000) watchingExample) =
       [\<lparr>u_site = ''youtube.com'', u_now = 1710504001000, u_sessionTime = 1000,
         u_today = ''2024-03-15'', u_storageKey = ''timeData_youtube.com_2024-03-15''\<rparr>]"
    using beginUpdate_suspended [OF watchingExample_fields(1,2), of "quietEnv 1710504001000"]
    by (simp add: stopTracking_unfold active watchingExample_fields isoDate_examples timeDataKey_def)
  show ?thesis
    unfolding updateTimeSpent_await_single [OF pending]
    by (simp add: resumeUpdate_no_tab creditSession_storage creditSession_amount
        watchingExample_fields storedTime_def isoDate_examples timeDataKey_def)
qed

lemma lateEveningExample_fields:
  "activeTab lateEveningExample = Some \<lparr>site = ''youtube.com'', tabId = 7\<rparr>"
  "sessionStartTime lateEveningExample = Some 1710547198500"
  "suspended lateEveningExample = []"
  "maxUpdateInterval lateEveningExample = 5000"
  "storage lateEveningExample =
     [(''timeData_youtube.com_2024-03-15'',
       TimeEntry \<lparr>timeSpent = 600000, date = ''2024-03-15'', lastUpdate = 1710547198000\<rparr>)]"
  by (simp_all add: lateEveningExample_def startTracking_def stopTracking_inactive
      sessionActive_def clearSession_def emit_def newManager_def quietEnv_def
      MAX_UPDATE_INTERVAL_def)

lemma double_credit_example:
  "storage (updateTimeSpent_await (quietEnv 1710504001400)
      (updateTimeSpent_await (quietEnv 1710504001400)
        (stopTracking (quietEnv 1710504001400)
          (updateTimeSpent (quietEnv 1710504001000) watchingExample)))) =
     [(''timeData_youtube.com_2024-03-15'',
       TimeEntry \<lparr>timeSpent = 2400, date = ''2024-03-15'', lastUpdate = 1710504001400\<rparr>)]"
proof -
  have active: "sessionActive watchingExample"
    by (simp add: sessionActive_def watchingExample_fields)
  define w1 where "w1 = updateTimeSpent (quietEnv 1710504001000) watchingExample"
  have w1: "w1 = beginUpdate (quietEnv 1710504001000) watchingExample"
    unfolding w1_def by (rule updateTimeSpent_active [OF active])
  have w1_fields: "activeTab w1 = Some \<lparr>site = ''youtube.com'', tabId = 7\<rparr>"
    "sessionStartTime w1 = Some 1710504000000" "storage w1 = []" "maxUpdateInterval w1 = 5000"
    by (simp_all add: w1 watchingExample_fields beginUpdate_def Let_def)
  have w1_susp: "suspended w1 =
      [\<lparr>u_site = ''youtube.com'', u_now = 1710504001000, u_sessionTime = 1000,
        u_today = ''2024-03-15'', u_storageKey = ''timeData_youtube.com_2024-03-15''\<rparr>]"
    using beginUpdate_suspended [OF watchingExample_fields(1,2), of "quietEnv 1710504001000"]
    by (simp add: w1 watchingExample_fields isoDate_examples timeDataKey_def)
  define w2 where "w2 = stopTracking (quietEnv 1710504001400) w1"
  have active1: "sessionActive w1"
    by (simp add: sessionActive_def w1_fields)
  have w2_susp: "suspended w2 =
      [\<lparr>u_site = ''youtube.com'', u_now = 1710504001000, u_sessionTime = 1000,
        u_today = ''2024-03-15'', u_storageKey = ''timeData_youtube.com_2024-03-15''\<rparr>,
       \<lparr>u_site = ''youtube.com'', u_now = 1710504001400, u_sessionTime = 1400,
        u_today = ''2024-03-15'', u_storageKey = ''timeData_youtube.com_2024-03-15''\<rparr>]"
    using beginUpdate_suspended [OF w1_fields(1,2), of "quietEnv 1710504001400"]
    by (simp add: w2_def stopTracking_unfold active1 w1_susp isoDate_more_examples timeDataKey_def)
  have w2_fields: "activeTab w2 = None" "storage w2 = []" "maxUpdateInterval w2 = 5000"
    by (simp_all add: w2_def w1_fields)
  show ?thesis
    unfolding w1_def [symmetric] w2_def [symmetric]
    by (simp add: updateTimeSpent_await_def w2_susp w2_fields resumeUpdate_no_tab
        creditSession_storage creditSession_amount storedTime_def isoDate_more_examples
        timeDataKey_def)
qed

section \<open>The site matcher\<close>

text \<open>
  C8. \<^verbatim>\<open>findMatchingSite\<close> returns a site exactly when the host name is not empty
  and equals a registered domain or ends with a dot followed by one. A registered host
  name is returned itself, and whatever is returned is a registered domain that the host
  name equals or is a subdomain of. With the registry \<open>{youtube.com}\<close>, the host
  \<open>m.youtube.com\<close> is mapped to \<open>youtube.com\<close> and \<open>notyoutube.com\<close> to nothing; the
  empty host name is mapped to nothing.
\<close>

theorem findMatchingSite_matches:
  "(findMatchingSite h sm \<noteq> None \<longleftrightarrow>
      h \<noteq> [] \<and> (\<exists>d \<in> set (map fst sm). h = d \<or> suffix (CHR ''.'' # d) h))
   \<and> (h \<noteq> [] \<and> h \<in> set (map fst sm) \<longrightarrow> findMatchingSite h sm = Some h)
   \<and> (\<forall>d. findMatchingSite h sm = Some d \<longrightarrow>
         d \<in> set (map fst sm) \<and> (h = d \<or> suffix (CHR ''.'' # d) h))
   \<and> findMatchingSite ''m.youtube.com'' [(''youtube.com'', c)] = Some ''youtube.com''
   \<and> findMatchingSite ''notyoutube.com'' [(''youtube.com'', c)] = None
   \<and> findMatchingSite [] sm = None"
proof (intro conjI)
  show "findMatchingSite h sm \<noteq> None \<longleftrightarrow>
      h \<noteq> [] \<and> (\<exists>d \<in> set (map fst sm). h = d \<or> suffix (CHR ''.'' # d) h)"
    using firstMatch_None [of h "map fst sm"] by (auto simp: findMatchingSite_def)
  show "h \<noteq> [] \<and> h \<in> set (map fst sm) \<longrightarrow> findMatchingSite h sm = Some h"
    by (simp add: findMatchingSite_def)
  show "\<forall>d. findMatchingSite h sm = Some d \<longrightarrow>
         d \<in> set (map fst sm) \<and> (h = d \<or> suffix (CHR ''.'' # d) h)"
    using firstMatch_Some [of h "map fst sm"]
    by (auto simp: findMatchingSite_def split: if_splits)
  show "findMatchingSite ''m.youtube.com'' [(''youtube.com'', c)] = Some ''youtube.com''"
    by (simp add: findMatchingSite_def endsWith_def)
  show "findMatchingSite ''notyoutube.com'' [(''youtube.com'', c)] = None"
    by (simp add: findMatchingSite_def endsWith_def)
  show "findMatchingSite [] sm = None"
    by (simp add: findMatchingSite_def)
qed

theorem findMatchingSite_matches_witness:
  "findMatchingSite ''www.reddit.com''
     [(''youtube.com'', \<lparr>enabled = True, timeLimit = 30, isDefault = True\<rparr>),
      (''reddit.com'', \<lparr>enabled = True, timeLimit = 30, isDefault = True\<rparr>)] = Some ''reddit.com''
   \<and> ''reddit.com'' \<in> set (map fst
     [(''youtube.com'', \<lparr>enabled = True, timeLimit = 30, isDefault = True\<rparr>),
      (''reddit.com'', \<lparr>enabled = True, timeLimit = 30, isDefault = True\<rparr>)])
   \<and> suffix ''.reddit.com'' ''www.reddit.com''
   \<and> findMatchingSite ''reddit.com''
     [(''youtube.com'', \<lparr>enabled = True, timeLimit = 30, isDefault = True\<rparr>),
      (''reddit.com'', \<lparr>enabled = True, timeLimit = 30, isDefault = True\<rparr>)] = Some ''reddit.com''"
  using findMatchingSite_matches [of "''www.reddit.com''"
     "[(''youtube.com'', \<lparr>enabled = True, timeLimit = 30, isDefault = True\<rparr>),
      (''reddit.com'', \<lparr>enabled = True, timeLimit = 30, isDefault = True\<rparr>)]"]
    findMatchingSite_matches [of "''reddit.com''"
     "[(''youtube.com'', \<lparr>enabled = True, timeLimit = 30, isDefault = True\<rparr>),
      (''reddit.com'', \<lparr>enabled = True, timeLimit = 30, isDefault = True\<rparr>)]"]
  by (simp add: findMatchingSite_def endsWith_def suffix_def)

section \<open>Validation\<close>

lemma validateTimeLimit_rejects:
  "(\<exists>err. validateTimeLimit n = Inl err) \<longleftrightarrow>
     (case n of Finite x \<Rightarrow> x < 1 \<or> 480 < x | _ \<Rightarrow> True)"
  by (simp add: validateTimeLimit_def split: number.split)

lemma validateTimeLimit_accepts:
  "validateTimeLimit n = Inr k \<Longrightarrow> (\<exists>x. n = Finite x \<and> k = \<lfloor>x\<rfloor>) \<and> 1 \<le> k \<and> k \<le> 480"
  by (auto simp: validateTimeLimit_def le_floor_iff floor_le_iff split: number.splits if_splits)

lemma validateDomain_without_dot:
  "\<not> includesChar (stripTrailingSlash (extractSite (stripProtocol domain))) (CHR ''.'')
   \<Longrightarrow> \<exists>err. validateDomain domain = Inl err"
  by (simp add: validateDomain_def Let_def)

text \<open>
  C9. \<^verbatim>\<open>validateDomain\<close> is to reject a normalized domain that holds a character
  other than a letter, a digit, a hyphen or a dot. For the input
  \<open>www.http://a.b\<close> the normalized domain is \<open>http://a.b\<close>, with a colon and two
  slashes; \<^verbatim>\<open>isValidUrl\<close> strips the protocol once more before it tests, and the
  domain is accepted.
\<close>

theorem validateDomain_accepts_protocol:
  "validateDomain ''www.http://a.b'' = Inr ''http://a.b''
   \<and> stripTrailingSlash (extractSite (stripProtocol ''www.http://a.b'')) = ''http://a.b''
   \<and> \<not> hostnameRegex ''http://a.b''"
  by (simp add: validateDomain_def stripProtocol_def extractSite_def stripPrefix_def startsWith_def
      stripTrailingSlash_def includesChar_def isValidUrl_def hostnameRegex_def isLabel_def
      isAlnum_def toLowerCase_def lowerLetters_def upperLetters_def decimalDigits_def)

section \<open>The session tracker\<close>

text \<open>
  C10. When \<^verbatim>\<open>updateTimeSpent\<close> is called with no session (\<^verbatim>\<open>activeTab\<close> or
  \<^verbatim>\<open>sessionStartTime\<close> is null), the storage is unchanged and no write is left
  pending, and afterwards \<^verbatim>\<open>activeTab\<close>, \<^verbatim>\<open>sessionStartTime\<close> and
  \<^verbatim>\<open>trackingInterval\<close> are null; a timer that was set is cancelled with
  \<^verbatim>\<open>clearInterval\<close>, and nothing else is done to the outside. Timer ids are not 0,
  as \<^verbatim>\<open>setInterval\<close> hands them out.
\<close>

theorem updateTimeSpent_without_session:
  assumes "activeTab w = None \<or> sessionStartTime w = None"
    and "trackingInterval w \<noteq> Some 0"
  shows "storage (updateTimeSpent e w) = storage w
    \<and> suspended (updateTimeSpent e w) = suspended w
    \<and> activeTab (updateTimeSpent e w) = None
    \<and> sessionStartTime (updateTimeSpent e w) = None
    \<and> trackingInterval (updateTimeSpent e w) = None
    \<and> trace (updateTimeSpent e w) =
        trace w @ (case trackingInterval w of
                     None \<Rightarrow> []
                   | Some timer \<Rightarrow> [ClearInterval timer])"
proof -
  from assms(1) have "\<not> sessionActive w"
    by (auto simp: sessionActive_def)
  then have "updateTimeSpent e w = clearSession w"
    by (rule updateTimeSpent_idle)
  with assms(2) show ?thesis
    by (simp add: clearSession_timer clearSession_trace split: option.split)
qed

theorem updateTimeSpent_without_session_witness:
  "(activeTab (newManager\<lparr>sessionStartTime := Some 5, trackingInterval := Some 3\<rparr>) = None
      \<or> sessionStartTime (newManager\<lparr>sessionStartTime := Some 5, trackingInterval := Some 3\<rparr>) = None)
   \<and> trackingInterval (newManager\<lparr>sessionStartTime := Some 5, trackingInterval := Some 3\<rparr>) \<noteq> Some 0
   \<and> storage (updateTimeSpent (quietEnv 1000)
         (newManager\<lparr>sessionStartTime := Some 5, trackingInterval := Some 3\<rparr>)) = []
   \<and> sessionStartTime (updateTimeSpent (quietEnv 1000)
         (newManager\<lparr>sessionStartTime := Some 5, trackingInterval := Some 3\<rparr>)) = None
   \<and> trackingInterval (updateTimeSpent (quietEnv 1000)
         (newManager\<lparr>sessionStartTime := Some 5, trackingInterval := Some 3\<rparr>)) = None
   \<and> trace (updateTimeSpent (quietEnv 1000)
         (newManager\<lparr>sessionStartTime := Some 5, trackingInterval := Some 3\<rparr>)) =
       [ClearInterval 3]"
  using updateTimeSpent_without_session
    [of "newManager\<lparr>sessionStartTime := Some 5, trackingInterval := Some 3\<rparr>" "quietEnv 1000"]
  by (simp add: newManager_def)

text \<open>
  C7. Stopping is idempotent. Two calls of \<^verbatim>\<open>stopTracking\<close> in a row leave the
  state, with the flush that the first call has started, exactly as one call does, and so
  does the flush when it has run. When the flush of the first call has completed before
  the second call, the second call changes neither the ledger nor the pending writes, and
  there is no session before or after it. Without a session \<^verbatim>\<open>stopTracking\<close>
  writes nothing and starts no flush, and it changes nothing at all when the three session
  fields are null.
\<close>

theorem stopTracking_idempotent:
  "stopTracking e2 (stopTracking e1 w) = stopTracking e1 w
   \<and> updateTimeSpent_await e3 (stopTracking e2 (stopTracking e1 w)) =
       updateTimeSpent_await e3 (stopTracking e1 w)
   \<and> storage (stopTracking e3 (updateTimeSpent_await e2 (stopTracking e1 w))) =
       storage (updateTimeSpent_await e2 (stopTracking e1 w))
   \<and> suspended (stopTracking e3 (updateTimeSpent_await e2 (stopTracking e1 w))) =
       suspended (updateTimeSpent_await e2 (stopTracking e1 w))
   \<and> \<not> sessionActive (updateTimeSpent_await e2 (stopTracking e1 w))
   \<and> \<not> sessionActive (stopTracking e3 (updateTimeSpent_await e2 (stopTracking e1 w)))
   \<and> (activeTab w = None \<and> sessionStartTime w = None \<and> trackingInterval w = None
        \<longrightarrow> stopTracking e1 w = w)
   \<and> (\<not> sessionActive w
        \<longrightarrow> storage (stopTracking e1 w) = storage w
            \<and> suspended (stopTracking e1 w) = suspended w
            \<and> \<not> sessionActive (stopTracking e1 w))"
proof -
  let ?flushed = "updateTimeSpent_await e2 (stopTracking e1 w)"
  have twice: "stopTracking e2 (stopTracking e1 w) = stopTracking e1 w"
    by (rule stopTracking_twice)
  have "activeTab ?flushed = None"
    by (rule updateTimeSpent_await_no_tab) simp
  then have idle: "\<not> sessionActive ?flushed"
    by (rule sessionActive_no_tab)
  have "\<not> sessionActive w \<Longrightarrow> suspended (stopTracking e1 w) = suspended w"
    by (rule stopTracking_suspended)
  moreover have "activeTab w = None \<and> sessionStartTime w = None \<and> trackingInterval w = None
        \<longrightarrow> stopTracking e1 w = w"
    by (simp add: stopTracking_inactive sessionActive_no_tab clearSession_idle)
  ultimately show ?thesis
    using twice idle stopTracking_suspended [OF idle, of e3] by simp
qed

theorem stopTracking_idempotent_witness:
  "activeTab newManager = None \<and> sessionStartTime newManager = None
   \<and> trackingInterval newManager = None \<and> \<not> sessionActive newManager
   \<and> stopTracking (quietEnv 1710504001000) newManager = newManager
   \<and> sessionActive watchingExample
   \<and> stopTracking (quietEnv 1710504001000) (stopTracking (quietEnv 1710504001000) watchingExample) =
       stopTracking (quietEnv 1710504001000) watchingExample
   \<and> storage (updateTimeSpent_await (quietEnv 1710504001000)
        (stopTracking (quietEnv 1710504001000)
          (stopTracking (quietEnv 1710504001000) watchingExample))) =
       [(''timeData_youtube.com_2024-03-15'',
         TimeEntry \<lparr>timeSpent = 1000, date = ''2024-03-15'', lastUpdate = 1710504001000\<rparr>)]
   \<and> storage (stopTracking (quietEnv 1710504001000)
        (updateTimeSpent_await (quietEnv 1710504001000)
          (stopTracking (quietEnv 1710504001000) watchingExample))) =
       [(''timeData_youtube.com_2024-03-15'',
         TimeEntry \<lparr>timeSpent = 1000, date = ''2024-03-15'', lastUpdate = 1710504001000\<rparr>)]"
proof -
  have idle: "activeTab newManager = None \<and> sessionStartTime newManager = None
      \<and> trackingInterval newManager = None"
    by (simp add: newManager_def)
  have inactive: "\<not> sessionActive newManager"
    by (simp add: newManager_def sessionActive_def)
  have active: "sessionActive watchingExample"
    by (simp add: sessionActive_def watchingExample_fields)
  from stopTracking_idempotent [of "quietEnv 1710504001000" "quietEnv 1710504001000" newManager]
    stopTracking_idempotent [of "quietEnv 1710504001000" "quietEnv 1710504001000" watchingExample
      "quietEnv 1710504001000"]
  show ?thesis
    using idle inactive active watchingExample_flushed by simp
qed

text \<open>
  C2, as the claim states it. The amount a tick adds to today's entry is not always
  \<open>min (now - sessionStartTime) 5000\<close>, and an interval can be credited twice.
  \<^item> A session started at 12:00:00.000; a tick begins at 12:00:01.000 and, before its
    update has run, \<^verbatim>\<open>stopTracking\<close> is called at 12:00:01.400. Both updates measure
    from the old \<^verbatim>\<open>sessionStartTime\<close>: the ledger holds 2400 ms for 1400 ms.
  \<^item> A session started at 23:59:58.500; a tick begins at 23:59:59.999 and its update
    runs at 00:00:00.001. The entry of the old day is read and the entry of the new day
    written: today's entry grows from nothing to 601499 ms.
  \<^item> The same tick with the read rejected and the write accepted: the entry falls from
    600000 ms to 1499 ms.
\<close>

theorem tick_credit_fails_off_schedule:
  "sessionStartTime watchingExample = Some 1710504000000
   \<and> storage watchingExample = []
   \<and> storage (updateTimeSpent_await (quietEnv 1710504001400)
        (updateTimeSpent_await (quietEnv 1710504001400)
          (stopTracking (quietEnv 1710504001400)
            (updateTimeSpent (quietEnv 1710504001000) watchingExample)))) =
       [(''timeData_youtube.com_2024-03-15'',
         TimeEntry \<lparr>timeSpent = 2400, date = ''2024-03-15'', lastUpdate = 1710504001400\<rparr>)]
   \<and> sessionStartTime lateEveningExample = Some 1710547198500
   \<and> getTodayString (quietEnv 1710547200001) = ''2024-03-16''
   \<and> storage (updateTimeSpent_await (quietEnv 1710547200001)
        (updateTimeSpent (quietEnv 1710547199999) lateEveningExample)) =
       [(''timeData_youtube.com_2024-03-15'',
         TimeEntry \<lparr>timeSpent = 600000, date = ''2024-03-15'', lastUpdate = 1710547198000\<rparr>),
        (''timeData_youtube.com_2024-03-16'',
         TimeEntry \<lparr>timeSpent = 601499, date = ''2024-03-16'', lastUpdate = 1710547199999\<rparr>)]
   \<and> storage (updateTimeSpent_await (rejectingReads (quietEnv 1710547199999))
        (updateTimeSpent (quietEnv 1710547199999) lateEveningExample)) =
       [(''timeData_youtube.com_2024-03-15'',
         TimeEntry \<lparr>timeSpent = 1499, date = ''2024-03-15'', lastUpdate = 1710547199999\<rparr>)]"
proof -
  note late = lateEveningExample_fields(1,2) _ lateEveningExample_fields(3)
  have day: "storage (updateTimeSpent_await (quietEnv 1710547200001)
        (updateTimeSpent (quietEnv 1710547199999) lateEveningExample)) =
       [(''timeData_youtube.com_2024-03-15'',
         TimeEntry \<lparr>timeSpent = 600000, date = ''2024-03-15'', lastUpdate = 1710547198000\<rparr>),
        (''timeData_youtube.com_2024-03-16'',
         TimeEntry \<lparr>timeSpent = 601499, date = ''2024-03-16'', lastUpdate = 1710547199999\<rparr>)]"
    by (subst tick_storage [OF late])
      (simp_all add: lateEveningExample_fields isoDate_more_examples timeDataKey_def storedTime_def)
  have lost: "storage (updateTimeSpent_await (rejectingReads (quietEnv 1710547199999))
        (updateTimeSpent (quietEnv 1710547199999) lateEveningExample)) =
       [(''timeData_youtube.com_2024-03-15'',
         TimeEntry \<lparr>timeSpent = 1499, date = ''2024-03-15'', lastUpdate = 1710547199999\<rparr>)]"
    by (subst tick_storage [OF late])
      (simp_all add: lateEveningExample_fields isoDate_more_examples timeDataKey_def)
  show ?thesis
    using double_credit_example day lost
    by (simp add: watchingExample_fields lateEveningExample_fields isoDate_more_examples)
qed

text \<open>
  C2, amended. For a tick on an active session whose update runs directly after its
  start, with no other update pending and no other event in between, with the storage
  answering the read and the write and the day unchanged between them: the tick adds \<open>min (now - sessionStartTime) 5000\<close> to the ledger entry of the
  site for today and changes no other key, whatever the elapsed time (after ten days:
  5000). It leaves \<^verbatim>\<open>sessionStartTime\<close> at \<open>now\<close>, unless the new total reaches the
  limit and the block stops the session; a flush that the block starts is measured from
  \<open>now\<close>.
\<close>

theorem tick_credits_bounded_time:
  assumes "activeTab w = Some active" and "sessionStartTime w = Some start" and "start \<noteq> 0"
    and "suspended w = []"
    and "maxUpdateInterval w = MAX_UPDATE_INTERVAL"
    and "\<not> storageGetFails e2" and "\<not> storageSetFails e2"
    and "getTodayString e2 = getTodayString e1"
  shows "let key = timeDataKey (site active) (getTodayString e1);
             credited = min (clock e1 - start) 5000;
             w' = updateTimeSpent_await e2 (updateTimeSpent e1 w)
         in storedTime w' key = storedTime w key + credited
          \<and> credited \<le> 5000
          \<and> (\<forall>other. other \<noteq> key \<longrightarrow> map_of (storage w') other = map_of (storage w) other)
          \<and> sessionStartTime w' =
              (if percentageAtLeast (storedTime w key + credited)
                    (getSiteTimeLimit w (site active)) 1 \<and> \<not> tabsUpdateFails e2
               then None else Some (clock e1))
          \<and> list_all (\<lambda>u. u_sessionTime u = clock e2 - clock e1) (suspended w')"
proof -
  define key where "key = timeDataKey (site active) (getTodayString e1)"
  define n where "n = storedTime w key + min (clock e1 - start) 5000"
  define w' where "w' = updateTimeSpent_await e2 (updateTimeSpent e1 w)"
  from tick_result [OF assms(1-4), of e2 e1] obtain v1 where
    tick: "w' = checkTimeThresholds e2 (site active) n v1"
    and fields: "activeTab v1 = Some active" "sessionStartTime v1 = Some (clock e1)"
      "suspended v1 = []"
    and limit: "getSiteTimeLimit v1 (site active) = getSiteTimeLimit w (site active)"
    and v1_storage: "storage v1 = AList.update key
        (TimeEntry \<lparr>timeSpent = n, date = getTodayString e2, lastUpdate = clock e1\<rparr>) (storage w)"
    unfolding w'_def n_def key_def using assms(5-8)
    by (auto simp: MAX_UPDATE_INTERVAL_def)
  have w'_storage: "storage w' = storage v1"
    by (simp add: tick)
  have stored: "storedTime w' key = n"
    using storedTime_update [of w' key _ w] w'_storage v1_storage by simp
  have frame: "other \<noteq> key \<Longrightarrow> map_of (storage w') other = map_of (storage w) other" for other
    by (simp add: w'_storage v1_storage update_conv')
  have start': "sessionStartTime w' =
      (if percentageAtLeast n (getSiteTimeLimit w (site active)) 1 \<and> \<not> tabsUpdateFails e2
       then None else Some (clock e1))"
    unfolding tick checkTimeThresholds_start limit
    by (simp add: fields)
  have "list_all (\<lambda>u. u_sessionTime u = clock e2 - clock e1 \<and> u_now u = clock e2)
      (drop (length (suspended v1)) (suspended w'))"
    unfolding tick by (rule checkTimeThresholds_suspended [OF fields(1,2)])
  then have pending: "list_all (\<lambda>u. u_sessionTime u = clock e2 - clock e1) (suspended w')"
    by (simp add: fields list_all_iff)
  show ?thesis
    using stored frame start' pending
    unfolding Let_def w'_def [symmetric] key_def [symmetric] n_def
    by simp
qed

theorem tick_credits_bounded_time_witness:
  "activeTab watchingExample = Some \<lparr>site = ''youtube.com'', tabId = 7\<rparr>
   \<and> sessionStartTime watchingExample = Some 1710504000000
   \<and> suspended watchingExample = []
   \<and> maxUpdateInterval watchingExample = MAX_UPDATE_INTERVAL
   \<and> clock (quietEnv 1711368000000) - 1710504000000 = 10 * msPerDay
   \<and> storedTime watchingExample ''timeData_youtube.com_2024-03-25'' = 0
   \<and> storedTime (updateTimeSpent_await (quietEnv 1711368000000)
        (updateTimeSpent (quietEnv 1711368000000) watchingExample))
        ''timeData_youtube.com_2024-03-25'' = 5000
   \<and> sessionStartTime (updateTimeSpent_await (quietEnv 1711368000000)
        (updateTimeSpent (quietEnv 1711368000000) watchingExample)) = Some 1711368000000"
proof -
  have h5: "maxUpdateInterval watchingExample = MAX_UPDATE_INTERVAL"
    by (simp add: watchingExample_fields MAX_UPDATE_INTERVAL_def)
  have key: "timeDataKey ''youtube.com'' (isoDate 1711368000000) =
      ''timeData_youtube.com_2024-03-25''"
    by (simp add: timeDataKey_def isoDate_examples)
  have old: "storedTime watchingExample ''timeData_youtube.com_2024-03-25'' = 0"
    by (simp add: storedTime_def watchingExample_fields)
  have below: "\<not> percentageAtLeast 5000 1800000 1"
    by (simp add: percentageAtLeast_def)
  from tick_credits_bounded_time [OF watchingExample_fields(1,2) _ watchingExample_fields(4) h5,
      of "quietEnv 1711368000000" "quietEnv 1711368000000"]
  show ?thesis
    using watchingExample_fields h5 old below
    by (simp add: Let_def key msPerDay_def)
qed



text \<open>
  C4, as the claim states it. The ledger holds the full 30 minutes of \<open>youtube.com\<close> for
  today, and a tab with that site gets the focus. The read of the entry is rejected:
  \<^verbatim>\<open>getTimeData\<close> logs the error and answers with a zero entry, and
  \<^verbatim>\<open>handleTabChange\<close> starts tracking the exhausted site, with a new timer and no
  navigation to the blocked page.
\<close>

theorem rejected_read_restarts_tracking:
  "getSiteTimeLimit exhaustedExample ''youtube.com''
     \<le> storedTime exhaustedExample (timeDataKey ''youtube.com''
          (getTodayString (rejectingReads
            (focusEnv 1710504001000 ''https://www.youtube.com/watch'' ''www.youtube.com''))))
   \<and> findMatchingSite (extractSite ''www.youtube.com'') (sites exhaustedExample) = Some ''youtube.com''
   \<and> activeTab (handleTabChange_await
        (rejectingReads (focusEnv 1710504001000 ''https://www.youtube.com/watch'' ''www.youtube.com'')) 9
        (handleTabChange (quietEnv 1710504001000) 9 exhaustedExample)) =
       Some \<lparr>site = ''youtube.com'', tabId = 9\<rparr>
   \<and> sessionStartTime (handleTabChange_await
        (rejectingReads (focusEnv 1710504001000 ''https://www.youtube.com/watch'' ''www.youtube.com'')) 9
        (handleTabChange (quietEnv 1710504001000) 9 exhaustedExample)) = Some 1710504001000
   \<and> trackingInterval (handleTabChange_await
        (rejectingReads (focusEnv 1710504001000 ''https://www.youtube.com/watch'' ''www.youtube.com'')) 9
        (handleTabChange (quietEnv 1710504001000) 9 exhaustedExample)) = Some 1
   \<and> trace (handleTabChange_await
        (rejectingReads (focusEnv 1710504001000 ''https://www.youtube.com/watch'' ''www.youtube.com'')) 9
        (handleTabChange (quietEnv 1710504001000) 9 exhaustedExample)) =
       [ConsoleError ''Error getting time data:'', SetInterval 1]"
proof -
  have url: "\<not> isSystemUrl ''https://www.youtube.com/watch''"
    by (simp add: isSystemUrl_def startsWith_def)
  have matched: "findMatchingSite (extractSite ''www.youtube.com'') (sites exhaustedExample) =
      Some ''youtube.com''"
    by (simp add: exhaustedExample_fields newManager_def DEFAULT_SITES_def findMatchingSite_def
        extractSite_def stripPrefix_def startsWith_def)
  have idle: "handleTabChange (quietEnv 1710504001000) 9 exhaustedExample = exhaustedExample"
    by (simp add: handleTabChange_def stopTracking_inactive sessionActive_no_tab
        clearSession_idle exhaustedExample_fields)
  have key: "timeDataKey ''youtube.com'' (isoDate 1710504001000) =
      ''timeData_youtube.com_2024-03-15''"
    by (simp add: timeDataKey_def isoDate_examples)
  have seq: "timerSeq exhaustedExample = 0"
    by (simp add: exhaustedExample_def newManager_def)
  have limit: "getSiteTimeLimit (emit x exhaustedExample) ''youtube.com'' = 1800000" for x
    using getSiteTimeLimit_cong [of "emit x exhaustedExample" exhaustedExample "''youtube.com''"]
    by (simp add: exhaustedExample_fields(7))
  have step: "handleTabChange_await
        (rejectingReads (focusEnv 1710504001000 ''https://www.youtube.com/watch'' ''www.youtube.com'')) 9
        exhaustedExample =
      startTracking
        (rejectingReads (focusEnv 1710504001000 ''https://www.youtube.com/watch'' ''www.youtube.com''))
        ''youtube.com'' 9 (emit (ConsoleError ''Error getting time data:'') exhaustedExample)"
    using url matched
    by (simp add: handleTabChange_await_def getTimeData_def getTimeData_await_def Let_def
        exhaustedExample_fields(9) limit)
  show ?thesis
    unfolding idle step
    using matched
    by (simp add: startTracking_def stopTracking_inactive sessionActive_no_tab clearSession_def
        exhaustedExample_fields(2-8) seq key Let_def)
qed

text \<open>
  C4, amended. A focus event for a tracked, enabled site whose entry for today has
  reached the limit, when the storage answers the read of that entry. The first part of
  \<^verbatim>\<open>handleTabChange\<close> leaves no active tab and no timer, whether or not the flush it
  has started runs before the rest. The rest then asks for the navigation to the blocked
  page and for nothing else (a rejected navigation is logged); it sets no active tab,
  creates no timer and hands out no timer id, so there is no session afterwards. Timer ids
  are not 0.
\<close>

theorem exhausted_site_is_blocked_not_tracked:
  assumes "tabUrl e = Some url" and "url \<noteq> []" and "\<not> isSystemUrl url"
    and "urlHostname e = Some hostname"
    and "findMatchingSite (extractSite hostname) (sites w) = Some matchedSite"
    and "matchedSite \<noteq> []"
    and "map_of (sites w) matchedSite = Some siteConfig" and "enabled siteConfig"
    and "\<not> storageGetFails e"
    and "trackingInterval w \<noteq> Some 0"
  shows "let v = handleTabChange e0 tab w;
             f = updateTimeSpent_await e1 v;
             key = timeDataKey matchedSite (getTodayString e);
             navigation = (if tabsUpdateFails e then ConsoleError ''Error blocking site:''
                           else TabsUpdate tab matchedSite)
         in activeTab v = None \<and> sessionStartTime v = None \<and> trackingInterval v = None
          \<and> storage v = storage w \<and> timerSeq v = timerSeq w
          \<and> activeTab f = None \<and> trackingInterval f = None \<and> timerSeq f = timerSeq w
          \<and> (getSiteTimeLimit w matchedSite \<le> storedTime w key \<longrightarrow>
               (let v' = handleTabChange_await e tab v
                in trace v' = trace v @ [navigation]
                 \<and> activeTab v' = None \<and> sessionStartTime v' = None \<and> trackingInterval v' = None
                 \<and> timerSeq v' = timerSeq w \<and> suspended v' = suspended v
                 \<and> storage v' = storage w))
          \<and> (getSiteTimeLimit w matchedSite \<le> storedTime f key \<longrightarrow>
               (let f' = handleTabChange_await e tab f
                in trace f' = trace f @ [navigation]
                 \<and> activeTab f' = None \<and> trackingInterval f' = None \<and> \<not> sessionActive f'
                 \<and> timerSeq f' = timerSeq w \<and> suspended f' = suspended f
                 \<and> storage f' = storage f
                 \<and> (\<not> tabsUpdateFails e \<longrightarrow> sessionStartTime f' = None)))"
proof -
  define v where "v = handleTabChange e0 tab w"
  define f where "f = updateTimeSpent_await e1 v"
  define key where "key = timeDataKey matchedSite (getTodayString e)"
  have v_facts: "activeTab v = None" "sessionStartTime v = None" "trackingInterval v = None"
    "storage v = storage w" "timerSeq v = timerSeq w" "sites v = sites w"
    "defaultTimeLimit v = defaultTimeLimit w"
    using assms(10) by (simp_all add: v_def handleTabChange_def stopTracking_timer)
  have f_cases: "f = v \<or> (\<exists>u. f = snd (creditSession e1 u (v\<lparr>suspended := tl (suspended v)\<rparr>)))"
    unfolding f_def updateTimeSpent_await_def
    by (cases "suspended v") (auto simp: resumeUpdate_no_tab v_facts)
  then have f_facts: "activeTab f = None" "trackingInterval f = None" "timerSeq f = timerSeq w"
    "sites f = sites w" "defaultTimeLimit f = defaultTimeLimit w"
    by (auto simp: v_facts)
  have limit_v: "getSiteTimeLimit v matchedSite = getSiteTimeLimit w matchedSite"
    by (rule getSiteTimeLimit_cong) (simp_all add: v_facts)
  have limit_f: "getSiteTimeLimit f matchedSite = getSiteTimeLimit w matchedSite"
    by (rule getSiteTimeLimit_cong) (simp_all add: f_facts)
  have stored_v: "storedTime v key = storedTime w key"
    by (rule storedTime_cong) (simp add: v_facts)
  have block_v: "handleTabChange_await e tab v = blockSite e tab matchedSite v"
    if "getSiteTimeLimit w matchedSite \<le> storedTime w key"
    using assms(1-9) that
    by (intro handleTabChange_await_exhausted) (simp_all add: v_facts limit_v stored_v key_def [symmetric])
  have block_f: "handleTabChange_await e tab f = blockSite e tab matchedSite f"
    if "getSiteTimeLimit w matchedSite \<le> storedTime f key"
    using assms(1-9) that
    by (intro handleTabChange_await_exhausted) (simp_all add: f_facts limit_f key_def [symmetric])
  have part_v: "getSiteTimeLimit w matchedSite \<le> storedTime w key \<Longrightarrow>
      (let v' = handleTabChange_await e tab v
       in trace v' = trace v @ [if tabsUpdateFails e then ConsoleError ''Error blocking site:''
                           else TabsUpdate tab matchedSite]
                 \<and> activeTab v' = None \<and> sessionStartTime v' = None \<and> trackingInterval v' = None
                 \<and> timerSeq v' = timerSeq w \<and> suspended v' = suspended v
                 \<and> storage v' = storage w)"
    by (simp add: block_v blockSite_idle v_facts Let_def)
  have part_f: "getSiteTimeLimit w matchedSite \<le> storedTime f key \<Longrightarrow>
      (let f' = handleTabChange_await e tab f
       in trace f' = trace f @ [if tabsUpdateFails e then ConsoleError ''Error blocking site:''
                           else TabsUpdate tab matchedSite]
                 \<and> activeTab f' = None \<and> trackingInterval f' = None \<and> \<not> sessionActive f'
                 \<and> timerSeq f' = timerSeq w \<and> suspended f' = suspended f
                 \<and> storage f' = storage f
                 \<and> (\<not> tabsUpdateFails e \<longrightarrow> sessionStartTime f' = None))"
    by (simp add: block_f blockSite_idle f_facts Let_def sessionActive_def)
  show ?thesis
    using v_facts(1-5) f_facts(1-3) part_v part_f
    unfolding Let_def v_def [symmetric] f_def [symmetric] key_def [symmetric]
    by simp
qed

theorem exhausted_site_is_blocked_not_tracked_witness:
  "tabUrl (focusEnv 1710504001000 ''https://www.youtube.com/watch'' ''www.youtube.com'') =
     Some ''https://www.youtube.com/watch''
   \<and> \<not> isSystemUrl ''https://www.youtube.com/watch''
   \<and> findMatchingSite (extractSite ''www.youtube.com'') (sites exhaustedExample) = Some ''youtube.com''
   \<and> getSiteTimeLimit exhaustedExample ''youtube.com''
       \<le> storedTime exhaustedExample ''timeData_youtube.com_2024-03-15''
   \<and> trace (handleTabChange_await
        (focusEnv 1710504001000 ''https://www.youtube.com/watch'' ''www.youtube.com'') 9
        (handleTabChange (quietEnv 1710504001000) 9 exhaustedExample)) =
       [TabsUpdate 9 ''youtube.com'']
   \<and> trace (handleTabChange_await
        (focusEnv 1710504001000 ''https://www.youtube.com/watch'' ''www.youtube.com'') 9
        (updateTimeSpent_await (quietEnv 1710504001000)
          (handleTabChange (quietEnv 1710504001000) 9 exhaustedExample))) =
       [TabsUpdate 9 ''youtube.com'']
   \<and> activeTab (handleTabChange_await
        (focusEnv 1710504001000 ''https://www.youtube.com/watch'' ''www.youtube.com'') 9
        (handleTabChange (quietEnv 1710504001000) 9 exhaustedExample)) = None
   \<and> sessionStartTime (handleTabChange_await
        (focusEnv 1710504001000 ''https://www.youtube.com/watch'' ''www.youtube.com'') 9
        (handleTabChange (quietEnv 1710504001000) 9 exhaustedExample)) = None
   \<and> trackingInterval (handleTabChange_await
        (focusEnv 1710504001000 ''https://www.youtube.com/watch'' ''www.youtube.com'') 9
        (handleTabChange (quietEnv 1710504001000) 9 exhaustedExample)) = None"
proof -
  have url: "''https://www.youtube.com/watch'' \<noteq> []"
    "\<not> isSystemUrl ''https://www.youtube.com/watch''"
    by (simp_all add: isSystemUrl_def startsWith_def)
  have matched: "findMatchingSite (extractSite ''www.youtube.com'') (sites exhaustedExample) =
      Some ''youtube.com''"
    by (simp add: exhaustedExample_fields newManager_def DEFAULT_SITES_def findMatchingSite_def
        extractSite_def stripPrefix_def startsWith_def)
  have name: "''youtube.com'' \<noteq> []" and on: "enabled \<lparr>enabled = True, timeLimit = 30, isDefault = True\<rparr>"
    by simp_all
  have timer: "trackingInterval exhaustedExample \<noteq> Some 0"
    by (simp add: exhaustedExample_fields)
  have idle: "handleTabChange (quietEnv 1710504001000) 9 exhaustedExample = exhaustedExample"
    by (simp add: handleTabChange_def stopTracking_inactive sessionActive_no_tab
        clearSession_idle exhaustedExample_fields)
  have nothing_pending: "updateTimeSpent_await (quietEnv 1710504001000) exhaustedExample =
      exhaustedExample"
    by (simp add: updateTimeSpent_await_def exhaustedExample_fields)
  have key: "timeDataKey ''youtube.com'' (isoDate 1710504001000) =
      ''timeData_youtube.com_2024-03-15''"
    by (simp add: timeDataKey_def isoDate_examples)
  from exhausted_site_is_blocked_not_tracked
      [where e = "focusEnv 1710504001000 ''https://www.youtube.com/watch'' ''www.youtube.com''"
        and ?e0.0 = "quietEnv 1710504001000" and ?e1.0 = "quietEnv 1710504001000" and tab = 9,
       OF focusEnv_fields(4) url focusEnv_fields(5) matched name exhaustedExample_fields(9) on
         focusEnv_fields(2) timer]
  show ?thesis
    using url matched exhaustedExample_fields
    by (simp add: Let_def key idle nothing_pending)
qed

section \<open>The threshold evaluator\<close>

text \<open>
  C3. For a time spent of at least 0 and a limit above 0, with a tab being tracked and
  the browser accepting the calls: \<^verbatim>\<open>checkTimeThresholds\<close> navigates the tab to
  the blocked page exactly when the time spent has reached the limit; it sends the warning,
  with the remaining time \<open>limitMs - spent\<close>, exactly when the time spent is at least
  0.8 of the limit and below it; it changes nothing exactly when the time spent is below
  0.8 of the limit.
\<close>

theorem checkTimeThresholds_classifies:
  assumes "activeTab w = Some active"
    and "getSiteTimeLimit w s = limitMs" and "0 < limitMs" and "0 \<le> spent"
    and "warningThreshold w = WARNING_THRESHOLD"
    and "\<not> tabsUpdateFails e" and "\<not> tabsSendMessageFails e"
  shows "let w' = checkTimeThresholds e s spent w;
             new = drop (length (trace w)) (trace w')
         in (limitMs \<le> spent \<longleftrightarrow> TabsUpdate (tabId active) s \<in> set new)
          \<and> (WARNING_THRESHOLD * of_int limitMs \<le> of_int spent \<and> spent < limitMs \<longleftrightarrow>
               TabsSendMessage (tabId active)
                 (''Warning: You have '' @ formatTime (limitMs - spent) @ '' left on '' @ s @ '' today.'')
                 (limitMs - spent) \<in> set new)
          \<and> (of_int spent < WARNING_THRESHOLD * of_int limitMs \<longleftrightarrow> w' = w)"
proof -
  have one: "percentageAtLeast spent limitMs 1 = (limitMs \<le> spent)"
    using assms(3) by (simp add: percentageAtLeast_pos)
  have warn: "percentageAtLeast spent limitMs WARNING_THRESHOLD =
      (WARNING_THRESHOLD * of_int limitMs \<le> of_int spent)"
    using assms(3) by (rule percentageAtLeast_pos)
  have below: "limitMs \<le> spent \<Longrightarrow> WARNING_THRESHOLD * of_int limitMs \<le> of_int spent"
  proof -
    assume "limitMs \<le> spent"
    then have "(of_int limitMs :: rat) \<le> of_int spent" by simp
    moreover have "WARNING_THRESHOLD * of_int limitMs \<le> (of_int limitMs :: rat)"
      using assms(3) by (simp add: WARNING_THRESHOLD_def)
    ultimately show ?thesis by linarith
  qed
  consider (blocked) "limitMs \<le> spent"
    | (warning) "spent < limitMs" "WARNING_THRESHOLD * of_int limitMs \<le> of_int spent"
    | (normal) "spent < limitMs" "of_int spent < WARNING_THRESHOLD * of_int limitMs"
    by linarith
  then show ?thesis
  proof cases
    case blocked
    then have w': "checkTimeThresholds e s spent w = blockSite e (tabId active) s w"
      using assms(1,2) one by (simp add: checkTimeThresholds_def)
    obtain xs where tr: "trace (blockSite e (tabId active) s w) =
        trace w @ TabsUpdate (tabId active) s # xs"
      and quiet: "list_all (\<lambda>x. (\<exists>m. x = ConsoleWarn m) \<or> (\<exists>t. x = ClearInterval t)) xs"
      using blockSite_trace [OF assms(6)] by blast
    from quiet have "TabsSendMessage a b c \<notin> set xs" for a b c
      by (auto simp: list_all_iff)
    moreover have "blockSite e (tabId active) s w \<noteq> w"
      using tr by (metis append_self_conv list.distinct(1))
    ultimately show ?thesis
      using blocked below w' tr by (simp add: Let_def)
  next
    case warning
    then have w': "checkTimeThresholds e s spent w = showWarning e s (limitMs - spent) w"
      using assms(2,5) one warn by (simp add: checkTimeThresholds_def)
    have "showWarning e s (limitMs - spent) w =
        emit (TabsSendMessage (tabId active)
          (''Warning: You have '' @ formatTime (limitMs - spent) @ '' left on '' @ s @ '' today.'')
          (limitMs - spent)) w"
      using assms(1,7) by (simp add: showWarning_def)
    moreover have "emit x w \<noteq> w" for x
      by (metis append_self_conv emit_fields(10) list.distinct(1))
    ultimately show ?thesis
      using warning w' by (simp add: Let_def)
  next
    case normal
    then have "checkTimeThresholds e s spent w = w"
      using assms(2,5) one warn by (simp add: checkTimeThresholds_def)
    with normal show ?thesis
      by (simp add: Let_def)
  qed
qed

theorem checkTimeThresholds_classifies_witness:
  "activeTab oneMinuteExample = Some \<lparr>site = ''example.com'', tabId = 7\<rparr>
   \<and> getSiteTimeLimit oneMinuteExample ''example.com'' = 60000
   \<and> warningThreshold oneMinuteExample = WARNING_THRESHOLD
   \<and> checkTimeThresholds (quietEnv 1710504001000) ''example.com'' 3000 oneMinuteExample =
       oneMinuteExample
   \<and> TabsSendMessage 7 ''Warning: You have 11s left on example.com today.'' 11000 \<in> set (drop
        (length (trace oneMinuteExample))
        (trace (checkTimeThresholds (quietEnv 1710504001000) ''example.com'' 49000 oneMinuteExample)))
   \<and> TabsUpdate 7 ''example.com'' \<in> set (drop
        (length (trace oneMinuteExample))
        (trace (checkTimeThresholds (quietEnv 1710504001000) ''example.com'' 60000 oneMinuteExample)))"
proof -
  note hyps = oneMinuteExample_fields(1,2) _ _ oneMinuteExample_fields(3)
    quietEnv_fields(6) quietEnv_fields(7)
  from checkTimeThresholds_classifies [where e = "quietEnv 1710504001000" and spent = 3000, OF hyps]
    checkTimeThresholds_classifies [where e = "quietEnv 1710504001000" and spent = 49000, OF hyps]
    checkTimeThresholds_classifies [where e = "quietEnv 1710504001000" and spent = 60000, OF hyps]
  show ?thesis
    using oneMinuteExample_fields
    by (simp add: Let_def WARNING_THRESHOLD_def formatTime_example)
qed

section \<open>The daily rollover\<close>

text \<open>
  What \<^verbatim>\<open>resetDailyData\<close> of this worker does when the storage answers: it removes
  every key that starts with \<open>timeData_\<close>, so every ledger entry of every site and day,
  and keeps every other key as it was.
\<close>

lemma resetDailyData_removes_every_entry:
  assumes "\<not> storageGetFails e" and "\<not> storageRemoveFails e"
  shows "map_of (storage (resetDailyData e w)) key =
           (if startsWith key ''timeData_'' then None else map_of (storage w) key)
         \<and> map_of (storage (resetDailyData e w)) (timeDataKey s d) = None"
proof -
  let ?ks = "filter (\<lambda>key. startsWith key ''timeData_'') (map fst (storage w))"
  have main: "map_of (storage (resetDailyData e w)) k =
           (if startsWith k ''timeData_'' then None else map_of (storage w) k)" for k
  proof (cases "?ks = []")
    case True
    then have "startsWith k ''timeData_'' \<Longrightarrow> k \<notin> set (map fst (storage w))"
      by (auto simp: filter_empty_conv)
    then have "startsWith k ''timeData_'' \<Longrightarrow> map_of (storage w) k = None"
      by (rule map_of_None_if_no_key)
    with True assms show ?thesis
      by (simp add: resetDailyData_def)
  next
    case False
    with assms have st: "storage (resetDailyData e w) =
        filter (\<lambda>(key, v). key \<notin> set ?ks) (storage w)"
      by (simp add: resetDailyData_def)
    have "map_of (storage (resetDailyData e w)) k =
        (if k \<in> set ?ks then None else map_of (storage w) k)"
      unfolding st by (rule map_of_filter_keys)
    moreover have "k \<notin> set ?ks \<Longrightarrow> startsWith k ''timeData_'' \<Longrightarrow> map_of (storage w) k = None"
      by (rule map_of_None_if_no_key) simp
    moreover have "k \<in> set ?ks \<Longrightarrow> startsWith k ''timeData_''"
      by simp
    ultimately show ?thesis
      by (cases "k \<in> set ?ks"; cases "startsWith k ''timeData_''") simp_all
  qed
  show ?thesis
    using main [of key] main [of "timeDataKey s d"] timeDataKey_prefix [of s d] by simp
qed


section \<open>The calendar day of a ledger entry\<close>

text \<open>
  C6. The date in a ledger key is to be the local calendar day, the day that the alarm at
  local midnight begins. One hour east of UTC, at the local midnight that begins
  2024-01-02, which is when the alarm set a millisecond earlier fires,
  \<^verbatim>\<open>getTodayString\<close> still gives 2024-01-01.
\<close>

theorem getTodayString_is_utc_day:
  "getTodayString (localEnv 1704150000000 3600000) = ''2024-01-01''
   \<and> localDateString (localEnv 1704150000000 3600000) = ''2024-01-02''
   \<and> getNextMidnight (localEnv 1704149999999 3600000) = 1704150000000"
  by (simp add: isoDate_examples getNextMidnight_def msPerDay_def)

end
